theory Spec2Isabelle
  imports Complex_Main
begin

section \<open>Data model (models.py)\<close>

text \<open>
  Python values that cross the JSON and the document-store boundary: the result of
  \<^verbatim>\<open>json.loads\<close>, the dictionaries handed to the store and the documents read back.
  A dictionary is the list of its items in insertion order; its keys are distinct, as
  the keys of a Python dictionary are.
\<close>

datatype datetime = Datetime int int int int int int int

datatype pyval =
    PNone
  | PBool bool
  | PInt int
  | PFloat real
  | PStr string
  | PDatetime datetime
  | PList "pyval list"
  | PDict "(string \<times> pyval) list"

type_synonym pydict = "(string \<times> pyval) list"

text \<open>\<^verbatim>\<open>class Activity(BaseModel)\<close> and \<^verbatim>\<open>class DayItinerary(BaseModel)\<close>.\<close>

record Activity =
  time :: string
  description :: string
  location :: string

record DayItinerary =
  day :: int
  theme :: string
  activities :: "Activity list"

text \<open>\<^verbatim>\<open>class TravelRequest(BaseModel)\<close>, after validation.\<close>

record TravelRequest =
  destination :: string
  durationDays :: int

section \<open>Exceptions\<close>

text \<open>
  One constructor for each exception class the code meets and for each
  \<^verbatim>\<open>raise\<close> of the repository; the comment gives the Python class and message.
\<close>

datatype exn =
    AsyncioTimeoutError
    \<comment> \<open>\<^verbatim>\<open>asyncio.TimeoutError\<close>\<close>
  | AiohttpClientError string
    \<comment> \<open>\<^verbatim>\<open>aiohttp.ClientError\<close> and its subclasses\<close>
  | JSONDecodeError
    \<comment> \<open>\<^verbatim>\<open>json.JSONDecodeError\<close>, a subclass of \<^verbatim>\<open>ValueError\<close>\<close>
  | KeyError string
  | KeyErrorInt int
  | TypeError
  | IndexError
  | AttributeError
  | PydanticValidationError
    \<comment> \<open>\<^verbatim>\<open>pydantic.ValidationError\<close>\<close>
  | PyMongoError
    \<comment> \<open>any error of the store driver, the store being unreachable\<close>
  | DuplicateKeyError
  | InvalidJSONResponse exn
    \<comment> \<open>\<^verbatim>\<open>ValueError(f"Invalid JSON response from OpenAI: {e}")\<close>\<close>
  | InvalidItineraryStructure pyval exn
    \<comment> \<open>\<^verbatim>\<open>ValueError(f"Invalid itinerary structure for day {day_data.get('day', 'unknown')}: {e}")\<close>\<close>
  | RateLimitExceeded
    \<comment> \<open>\<^verbatim>\<open>Exception("Rate limit exceeded after all retries")\<close>\<close>
  | OpenAIAPIError int string
    \<comment> \<open>\<^verbatim>\<open>Exception(f"OpenAI API error {response.status}: {error_text}")\<close>\<close>
  | RequestTimeout
    \<comment> \<open>\<^verbatim>\<open>Exception("Request timeout after all retries")\<close>\<close>
  | NetworkError exn
    \<comment> \<open>\<^verbatim>\<open>Exception(f"Network error after all retries: {e}")\<close>\<close>
  | RetriesExhausted
    \<comment> \<open>\<^verbatim>\<open>Exception("Failed to generate itinerary after all retries")\<close>\<close>
  | EmptyItinerary
    \<comment> \<open>\<^verbatim>\<open>ValueError("Generated itinerary is empty")\<close>\<close>
  | DayCountMismatch int nat
    \<comment> \<open>\<^verbatim>\<open>ValueError(f"Expected {expected_days} days, but got {len(itinerary)} days")\<close>\<close>
  | DayNumberingMismatch int int
    \<comment> \<open>\<^verbatim>\<open>ValueError(f"Day numbering mismatch: expected day {i}, got day {day.day}")\<close>\<close>
  | MissingTheme int
    \<comment> \<open>\<^verbatim>\<open>ValueError(f"Day {i} is missing a theme")\<close>\<close>
  | NoActivities int
    \<comment> \<open>\<^verbatim>\<open>ValueError(f"Day {i} has no activities")\<close>\<close>
  | MissingTimes int "string set"
    \<comment> \<open>\<^verbatim>\<open>ValueError(f"Day {i} is missing activities for: {', '.join(missing_times)}")\<close>\<close>
  | MissingDescription int string
    \<comment> \<open>\<^verbatim>\<open>ValueError(f"Day {i}, {activity.time} activity is missing description")\<close>\<close>
  | MissingLocation int string
    \<comment> \<open>\<^verbatim>\<open>ValueError(f"Day {i}, {activity.time} activity is missing location")\<close>\<close>
  | HTTPException int string "exn option"
    \<comment> \<open>\<^verbatim>\<open>HTTPException(status_code, detail)\<close>: the status code, the literal text of
        the detail and the exception formatted into it, if any\<close>

section \<open>Strings\<close>

text \<open>
  \<^verbatim>\<open>str.strip()\<close> removes leading and trailing whitespace. Strings are ASCII text here;
  the whitespace characters of ASCII are the codes 9 to 13, 28 to 31 and 32.
\<close>

definition py_isspace :: "char \<Rightarrow> bool" where
  "py_isspace c = (of_char c \<in> set [9, 10, 11, 12, 13, 28, 29, 30, 31, 32 :: nat])"

definition py_strip :: "string \<Rightarrow> string" where
  "py_strip s = rev (dropWhile py_isspace (rev (dropWhile py_isspace s)))"

text \<open>\<^verbatim>\<open>not s or not s.strip()\<close>\<close>

definition blank :: "string \<Rightarrow> bool" where
  "blank s = (s = [] \<or> py_strip s = [])"

section \<open>Content validation (services/itinerary\_generator.py)\<close>

definition required_times :: "string set" where
  "required_times = {''Morning'', ''Afternoon'', ''Evening''}"

text \<open>The inner loop \<^verbatim>\<open>for activity in day.activities\<close>.\<close>

fun validate_activities :: "int \<Rightarrow> Activity list \<Rightarrow> exn + unit" where
  "validate_activities i [] = Inr ()"
| "validate_activities i (activity # rest) =
     (if blank (description activity) then Inl (MissingDescription i (time activity))
      else if blank (location activity) then Inl (MissingLocation i (time activity))
      else validate_activities i rest)"

text \<open>The body of the loop \<^verbatim>\<open>for i, day in enumerate(itinerary, 1)\<close>.\<close>

definition validate_day :: "int \<Rightarrow> DayItinerary \<Rightarrow> exn + unit" where
  "validate_day i d =
     (if day d \<noteq> i then Inl (DayNumberingMismatch i (day d))
      else if blank (theme d) then Inl (MissingTheme i)
      else if activities d = [] then Inl (NoActivities i)
      else let activity_times = set (map time (activities d)) in
        if \<not> required_times \<subseteq> activity_times
        then Inl (MissingTimes i (required_times - activity_times))
        else validate_activities i (activities d))"

fun validate_days :: "int \<Rightarrow> DayItinerary list \<Rightarrow> exn + unit" where
  "validate_days i [] = Inr ()"
| "validate_days i (d # rest) =
     (case validate_day i d of
        Inl e \<Rightarrow> Inl e
      | Inr _ \<Rightarrow> validate_days (i + 1) rest)"

definition validate_itinerary :: "DayItinerary list \<Rightarrow> int \<Rightarrow> exn + unit" where
  "validate_itinerary itinerary expected_days =
     (if itinerary = [] then Inl EmptyItinerary
      else if int (length itinerary) \<noteq> expected_days
        then Inl (DayCountMismatch expected_days (length itinerary))
      else validate_days 1 itinerary)"

subsection \<open>The checks of the validator, as the specification lists them\<close>















section \<open>Library functions taken as parameters\<close>

text \<open>
  The functions of the Python libraries that the code calls and whose results are not
  fixed by the repository: \<^verbatim>\<open>json.loads\<close> (\<open>None\<close> when it raises
  \<^verbatim>\<open>JSONDecodeError\<close>), the coercion of a value to a \<^verbatim>\<open>str\<close> or \<^verbatim>\<open>int\<close> field by
  pydantic (\<open>None\<close> when it raises \<^verbatim>\<open>ValidationError\<close>), \<^verbatim>\<open>str(e)\<close> of an exception,
  \<^verbatim>\<open>datetime.isoformat\<close> and \<^verbatim>\<open>datetime.fromisoformat\<close> (\<open>None\<close> when it raises
  \<^verbatim>\<open>ValueError\<close>).
\<close>

record pylib =
  json_loads :: "string \<Rightarrow> pyval option"
  coerce_str :: "pyval \<Rightarrow> string option"
  coerce_int :: "pyval \<Rightarrow> int option"
  str_exn :: "exn \<Rightarrow> string"
  isoformat :: "datetime \<Rightarrow> string"
  fromisoformat :: "string \<Rightarrow> datetime option"

section \<open>Python operations on values\<close>

text \<open>\<^verbatim>\<open>v[key]\<close> with a string key.\<close>

fun getitem :: "pyval \<Rightarrow> string \<Rightarrow> exn + pyval" where
  "getitem (PDict d) k = (case map_of d k of None \<Rightarrow> Inl (KeyError k) | Some v \<Rightarrow> Inr v)"
| "getitem _ k = Inl TypeError"

text \<open>\<^verbatim>\<open>v[0]\<close>: the first element of a list or string; a dictionary decoded from JSON has no integer key.\<close>

fun getitem0 :: "pyval \<Rightarrow> exn + pyval" where
  "getitem0 (PList []) = Inl IndexError"
| "getitem0 (PList (x # _)) = Inr x"
| "getitem0 (PStr []) = Inl IndexError"
| "getitem0 (PStr (c # _)) = Inr (PStr [c])"
| "getitem0 (PDict d) = Inl (KeyErrorInt 0)"
| "getitem0 _ = Inl TypeError"

text \<open>\<^verbatim>\<open>for x in v\<close>: the elements of a list, the keys of a dictionary, the characters of a string.\<close>

fun py_iter :: "pyval \<Rightarrow> exn + pyval list" where
  "py_iter (PList xs) = Inr xs"
| "py_iter (PDict d) = Inr (map (\<lambda>(k, _). PStr k) d)"
| "py_iter (PStr s) = Inr (map (\<lambda>c. PStr [c]) s)"
| "py_iter _ = Inl TypeError"

text \<open>\<^verbatim>\<open>v.strip()\<close>: only a string has the method.\<close>

fun strip_method :: "pyval \<Rightarrow> exn + string" where
  "strip_method (PStr s) = Inr (py_strip s)"
| "strip_method _ = Inl AttributeError"

text \<open>\<^verbatim>\<open>day_data.get('day', 'unknown')\<close>: only a dictionary has the method.\<close>

fun get_day_or_unknown :: "pyval \<Rightarrow> exn + pyval" where
  "get_day_or_unknown (PDict d) =
     (case map_of d ''day'' of None \<Rightarrow> Inr (PStr ''unknown'') | Some v \<Rightarrow> Inr v)"
| "get_day_or_unknown _ = Inl AttributeError"

section \<open>Generation client (services/openai\_service.py)\<close>

text \<open>
  The constructors \<^verbatim>\<open>Activity(time=..., description=..., location=...)\<close> and
  \<^verbatim>\<open>DayItinerary(day=..., theme=..., activities=...)\<close> with pydantic's validation of the
  fields; \<^verbatim>\<open>day\<close> is declared \<^verbatim>\<open>ge=1\<close>.
\<close>

definition new_Activity :: "pylib \<Rightarrow> pyval \<Rightarrow> pyval \<Rightarrow> pyval \<Rightarrow> exn + Activity" where
  "new_Activity lib t d l =
     (case (coerce_str lib t, coerce_str lib d, coerce_str lib l) of
        (Some t', Some d', Some l') \<Rightarrow> Inr \<lparr>time = t', description = d', location = l'\<rparr>
      | _ \<Rightarrow> Inl PydanticValidationError)"

definition new_DayItinerary :: "pylib \<Rightarrow> pyval \<Rightarrow> pyval \<Rightarrow> Activity list \<Rightarrow> exn + DayItinerary" where
  "new_DayItinerary lib n t acts =
     (case (coerce_int lib n, coerce_str lib t) of
        (Some n', Some t') \<Rightarrow>
          if 1 \<le> n' then Inr \<lparr>day = n', theme = t', activities = acts\<rparr>
          else Inl PydanticValidationError
      | _ \<Rightarrow> Inl PydanticValidationError)"

text \<open>One element of the list comprehension over \<^verbatim>\<open>day_data["activities"]\<close>.\<close>

definition parse_activity :: "pylib \<Rightarrow> pyval \<Rightarrow> exn + Activity" where
  "parse_activity lib activity =
     (case getitem activity ''time'' of Inl e \<Rightarrow> Inl e | Inr t \<Rightarrow>
     (case getitem activity ''description'' of Inl e \<Rightarrow> Inl e | Inr d \<Rightarrow>
     (case getitem activity ''location'' of Inl e \<Rightarrow> Inl e | Inr l \<Rightarrow>
      new_Activity lib t d l)))"

fun parse_activities :: "pylib \<Rightarrow> pyval list \<Rightarrow> exn + Activity list" where
  "parse_activities lib [] = Inr []"
| "parse_activities lib (activity # rest) =
     (case parse_activity lib activity of Inl e \<Rightarrow> Inl e | Inr a \<Rightarrow>
     (case parse_activities lib rest of Inl e \<Rightarrow> Inl e | Inr as \<Rightarrow> Inr (a # as)))"

text \<open>The \<^verbatim>\<open>try\<close> block of the loop body in \<^verbatim>\<open>_parse_itinerary\<close>.\<close>

definition parse_day_try :: "pylib \<Rightarrow> pyval \<Rightarrow> exn + DayItinerary" where
  "parse_day_try lib day_data =
     (case getitem day_data ''activities'' of Inl e \<Rightarrow> Inl e | Inr acts_data \<Rightarrow>
     (case py_iter acts_data of Inl e \<Rightarrow> Inl e | Inr items \<Rightarrow>
     (case parse_activities lib items of Inl e \<Rightarrow> Inl e | Inr acts \<Rightarrow>
     (case getitem day_data ''day'' of Inl e \<Rightarrow> Inl e | Inr n \<Rightarrow>
     (case getitem day_data ''theme'' of Inl e \<Rightarrow> Inl e | Inr t \<Rightarrow>
      new_DayItinerary lib n t acts)))))"

text \<open>\<^verbatim>\<open>except (KeyError, TypeError) as e\<close>: the classes this handler catches.\<close>

fun is_KeyError_or_TypeError :: "exn \<Rightarrow> bool" where
  "is_KeyError_or_TypeError (KeyError _) = True"
| "is_KeyError_or_TypeError (KeyErrorInt _) = True"
| "is_KeyError_or_TypeError TypeError = True"
| "is_KeyError_or_TypeError _ = False"

definition parse_day :: "pylib \<Rightarrow> pyval \<Rightarrow> exn + DayItinerary" where
  "parse_day lib day_data =
     (case parse_day_try lib day_data of
        Inr d \<Rightarrow> Inr d
      | Inl e \<Rightarrow>
          if is_KeyError_or_TypeError e then
            (case get_day_or_unknown day_data of
               Inl e' \<Rightarrow> Inl e'
             | Inr n \<Rightarrow> Inl (InvalidItineraryStructure n e))
          else Inl e)"

fun parse_days :: "pylib \<Rightarrow> pyval list \<Rightarrow> exn + DayItinerary list" where
  "parse_days lib [] = Inr []"
| "parse_days lib (day_data # rest) =
     (case parse_day lib day_data of Inl e \<Rightarrow> Inl e | Inr d \<Rightarrow>
     (case parse_days lib rest of Inl e \<Rightarrow> Inl e | Inr ds \<Rightarrow> Inr (d # ds)))"

definition parse_itinerary :: "pylib \<Rightarrow> pyval \<Rightarrow> exn + DayItinerary list" where
  "parse_itinerary lib itinerary_data =
     (case py_iter itinerary_data of Inl e \<Rightarrow> Inl e | Inr items \<Rightarrow> parse_days lib items)"

text \<open>
  The response of one request: its status, the value of \<^verbatim>\<open>await response.json()\<close> and
  of \<^verbatim>\<open>await response.text()\<close>. A request, or the reading of its response, that raises
  is \<open>Raises\<close>.
\<close>

record response =
  status :: int
  json :: pyval
  text_of :: string

datatype http_result = Raises exn | Response response

text \<open>
  The branch \<^verbatim>\<open>if response.status == 200\<close>:
  \<^verbatim>\<open>content = result["choices"][0]["message"]["content"].strip()\<close>, then the inner
  \<^verbatim>\<open>try\<close> with its handler \<^verbatim>\<open>except (json.JSONDecodeError, KeyError)\<close>.
\<close>

definition response_content :: "pyval \<Rightarrow> exn + string" where
  "response_content result =
     (case getitem result ''choices'' of Inl e \<Rightarrow> Inl e | Inr choices \<Rightarrow>
     (case getitem0 choices of Inl e \<Rightarrow> Inl e | Inr choice \<Rightarrow>
     (case getitem choice ''message'' of Inl e \<Rightarrow> Inl e | Inr message \<Rightarrow>
     (case getitem message ''content'' of Inl e \<Rightarrow> Inl e | Inr content \<Rightarrow>
      strip_method content))))"

definition parse_content_try :: "pylib \<Rightarrow> string \<Rightarrow> exn + DayItinerary list" where
  "parse_content_try lib content =
     (case json_loads lib content of
        None \<Rightarrow> Inl JSONDecodeError
      | Some itinerary_data \<Rightarrow>
          (case getitem itinerary_data ''itinerary'' of
             Inl e \<Rightarrow> Inl e
           | Inr v \<Rightarrow> parse_itinerary lib v))"

fun is_JSONDecodeError_or_KeyError :: "exn \<Rightarrow> bool" where
  "is_JSONDecodeError_or_KeyError JSONDecodeError = True"
| "is_JSONDecodeError_or_KeyError (KeyError _) = True"
| "is_JSONDecodeError_or_KeyError (KeyErrorInt _) = True"
| "is_JSONDecodeError_or_KeyError _ = False"

definition parse_content :: "pylib \<Rightarrow> string \<Rightarrow> exn + DayItinerary list" where
  "parse_content lib content =
     (case parse_content_try lib content of
        Inr itinerary \<Rightarrow> Inr itinerary
      | Inl e \<Rightarrow> if is_JSONDecodeError_or_KeyError e then Inl (InvalidJSONResponse e) else Inl e)"

definition on_status_200 :: "pylib \<Rightarrow> response \<Rightarrow> exn + DayItinerary list" where
  "on_status_200 lib resp =
     (case response_content (json resp) of
        Inl e \<Rightarrow> Inl e
      | Inr content \<Rightarrow> parse_content lib content)"

text \<open>\<^verbatim>\<open>class OpenAIService\<close>: the fields the retry loop reads, as \<^verbatim>\<open>__init__\<close> sets them.\<close>

record OpenAIService =
  max_retries :: int
  retry_delay :: int

definition OpenAIService_init :: OpenAIService where
  "OpenAIService_init = \<lparr>max_retries = 3, retry_delay = 1\<rparr>"

text \<open>
  What one pass through the body of \<^verbatim>\<open>for attempt in range(self.max_retries)\<close> ends with:
  a \<^verbatim>\<open>return\<close>, an exception that leaves the function, or
  \<^verbatim>\<open>await asyncio.sleep(wait_time); continue\<close>.
\<close>

datatype flow = Return "DayItinerary list" | Raise exn | SleepContinue int

definition wait_time :: "OpenAIService \<Rightarrow> nat \<Rightarrow> int" where
  "wait_time self attempt = retry_delay self * 2 ^ attempt"

text \<open>The \<^verbatim>\<open>try\<close> block of the loop body.\<close>

definition try_block :: "pylib \<Rightarrow> OpenAIService \<Rightarrow> nat \<Rightarrow> http_result \<Rightarrow> flow" where
  "try_block lib self attempt r =
     (case r of
        Raises e \<Rightarrow> Raise e
      | Response resp \<Rightarrow>
          if status resp = 200 then
            (case on_status_200 lib resp of Inl e \<Rightarrow> Raise e | Inr itinerary \<Rightarrow> Return itinerary)
          else if status resp = 429 then
            (if int attempt < max_retries self - 1
             then SleepContinue (wait_time self attempt)
             else Raise RateLimitExceeded)
          else Raise (OpenAIAPIError (status resp) (text_of resp)))"

text \<open>
  The loop body with its handlers \<^verbatim>\<open>except asyncio.TimeoutError\<close> and
  \<^verbatim>\<open>except aiohttp.ClientError as e\<close>; any other exception propagates.
\<close>

definition loop_body :: "pylib \<Rightarrow> OpenAIService \<Rightarrow> nat \<Rightarrow> http_result \<Rightarrow> flow" where
  "loop_body lib self attempt r =
     (case try_block lib self attempt r of
        Raise AsyncioTimeoutError \<Rightarrow>
          if int attempt < max_retries self - 1
          then SleepContinue (wait_time self attempt)
          else Raise RequestTimeout
      | Raise (AiohttpClientError m) \<Rightarrow>
          if int attempt < max_retries self - 1
          then SleepContinue (wait_time self attempt)
          else Raise (NetworkError (AiohttpClientError m))
      | other \<Rightarrow> other)"

text \<open>
  What the client does, in order: \<open>Post k\<close> is the request of attempt \<open>k\<close> (counted from 0),
  \<open>Sleep d\<close> is \<^verbatim>\<open>await asyncio.sleep(d)\<close>.
\<close>

datatype client_event = Post nat | Sleep int

text \<open>
  \<^verbatim>\<open>generate_itinerary\<close>: the loop from \<open>attempt\<close> on, \<open>responses k\<close> being what the
  request of attempt \<open>k\<close> meets. The statement after the loop raises.
\<close>

function generate_loop ::
  "pylib \<Rightarrow> OpenAIService \<Rightarrow> (nat \<Rightarrow> http_result) \<Rightarrow> nat \<Rightarrow> client_event list
    \<Rightarrow> (exn + DayItinerary list) \<times> client_event list" where
  "generate_loop lib self responses attempt trace =
     (if int attempt < max_retries self then
        (case loop_body lib self attempt (responses attempt) of
           Return itinerary \<Rightarrow> (Inr itinerary, trace @ [Post attempt])
         | Raise e \<Rightarrow> (Inl e, trace @ [Post attempt])
         | SleepContinue d \<Rightarrow>
             generate_loop lib self responses (attempt + 1) (trace @ [Post attempt, Sleep d]))
      else (Inl RetriesExhausted, trace))"
  by pat_completeness auto
termination
  by (relation "measure (\<lambda>(lib, self, responses, attempt, trace). nat (max_retries self) - attempt)") auto

definition generate_itinerary ::
  "pylib \<Rightarrow> OpenAIService \<Rightarrow> (nat \<Rightarrow> http_result)
    \<Rightarrow> (exn + DayItinerary list) \<times> client_event list" where
  "generate_itinerary lib self responses = generate_loop lib self responses 0 []"

definition attempts_made :: "client_event list \<Rightarrow> nat" where
  "attempts_made trace = length (filter (\<lambda>ev. case ev of Post _ \<Rightarrow> True | Sleep _ \<Rightarrow> False) trace)"

fun delays :: "client_event list \<Rightarrow> int list" where
  "delays [] = []"
| "delays (Post _ # rest) = delays rest"
| "delays (Sleep d # rest) = d # delays rest"

text \<open>
  The retryable conditions of the specification: a rate-limiting response, a request
  timeout, a network-transport failure.
\<close>

fun retryable :: "http_result \<Rightarrow> bool" where
  "retryable (Raises AsyncioTimeoutError) = True"
| "retryable (Raises (AiohttpClientError _)) = True"
| "retryable (Raises _) = False"
| "retryable (Response resp) = (status resp = 429)"

text \<open>
  The exceptions the two handlers of the loop catch, and the terminal failure raised
  when a retryable condition meets an exhausted budget.
\<close>

fun transport_error :: "exn \<Rightarrow> bool" where
  "transport_error AsyncioTimeoutError = True"
| "transport_error (AiohttpClientError _) = True"
| "transport_error _ = False"

fun terminal_failure :: "http_result \<Rightarrow> exn" where
  "terminal_failure (Raises AsyncioTimeoutError) = RequestTimeout"
| "terminal_failure (Raises e) = NetworkError e"
| "terminal_failure (Response resp) = RateLimitExceeded"

text \<open>The events of \<open>m\<close> retried attempts from attempt \<open>k\<close> on: each request with the sleep after it.\<close>

definition retried :: "OpenAIService \<Rightarrow> nat \<Rightarrow> nat \<Rightarrow> client_event list" where
  "retried self k m =
     concat (map (\<lambda>j. [Post j, Sleep (retry_delay self * 2 ^ j)]) [k ..< k + m])"

section \<open>Document store adapter (services/mongodb\_service.py)\<close>

text \<open>\<^verbatim>\<open>d[key] = v\<close> on a dictionary: an existing key keeps its place, a new one is added last.\<close>

fun dict_set :: "string \<Rightarrow> pyval \<Rightarrow> pydict \<Rightarrow> pydict" where
  "dict_set key v [] = [(key, v)]"
| "dict_set key v ((k, w) # rest) =
     (if k = key then (key, v) # rest else (k, w) # dict_set key v rest)"

text \<open>
  \<^verbatim>\<open>_prepare_data_for_mongodb\<close>: the loop over \<^verbatim>\<open>data.items()\<close>, the branch taken for one
  value, and the list comprehension over the items of a list.
\<close>

fun prepare_data_for_mongodb :: "pylib \<Rightarrow> pydict \<Rightarrow> pydict"
  and prepare_value :: "pylib \<Rightarrow> pyval \<Rightarrow> pyval"
  and prepare_items :: "pylib \<Rightarrow> pyval list \<Rightarrow> pyval list" where
  "prepare_data_for_mongodb lib [] = []"
| "prepare_data_for_mongodb lib ((key, v) # rest) =
     (key, prepare_value lib v) # prepare_data_for_mongodb lib rest"
| "prepare_value lib (PDatetime d) = PStr (isoformat lib d)"
| "prepare_value lib (PDict d) = PDict (prepare_data_for_mongodb lib d)"
| "prepare_value lib (PList xs) = PList (prepare_items lib xs)"
| "prepare_value lib v = v"
| "prepare_items lib [] = []"
| "prepare_items lib (PDict d # rest) = PDict (prepare_data_for_mongodb lib d) # prepare_items lib rest"
| "prepare_items lib (item # rest) = item # prepare_items lib rest"

text \<open>\<^verbatim>\<open>value.replace('Z', '+00:00')\<close> and \<^verbatim>\<open>_is_iso_datetime\<close>.\<close>

definition replace_Z :: "string \<Rightarrow> string" where
  "replace_Z s = concat (map (\<lambda>c. if c = CHR ''Z'' then ''+00:00'' else [c]) s)"

definition is_iso_datetime :: "pylib \<Rightarrow> string \<Rightarrow> bool" where
  "is_iso_datetime lib s = (fromisoformat lib (replace_Z s) \<noteq> None)"

text \<open>\<^verbatim>\<open>_process_data_from_mongodb\<close>, in the same three parts.\<close>

fun process_data_from_mongodb :: "pylib \<Rightarrow> pydict \<Rightarrow> pydict"
  and process_value :: "pylib \<Rightarrow> pyval \<Rightarrow> pyval"
  and process_items :: "pylib \<Rightarrow> pyval list \<Rightarrow> pyval list" where
  "process_data_from_mongodb lib [] = []"
| "process_data_from_mongodb lib ((key, v) # rest) =
     (if key = ''_id'' \<and> key \<noteq> ''jobId'' then process_data_from_mongodb lib rest
      else (key, process_value lib v) # process_data_from_mongodb lib rest)"
| "process_value lib (PStr s) =
     (if is_iso_datetime lib s then
        (case fromisoformat lib (replace_Z s) of
           Some d \<Rightarrow> PDatetime d
         | None \<Rightarrow> PStr s)
      else PStr s)"
| "process_value lib (PDict d) = PDict (process_data_from_mongodb lib d)"
| "process_value lib (PList xs) = PList (process_items lib xs)"
| "process_value lib v = v"
| "process_items lib [] = []"
| "process_items lib (PDict d # rest) = PDict (process_data_from_mongodb lib d) # process_items lib rest"
| "process_items lib (item # rest) = item # process_items lib rest"

text \<open>
  The collection maps \<^verbatim>\<open>_id\<close> to the stored document. The three driver calls the
  service makes; \<open>up\<close> says whether the store is reachable at the call, an unreachable
  store raises. \<^verbatim>\<open>update_one(..., {"$set": updates})\<close> assigns each of them in the matched
  document and returns the matched count.
\<close>

type_synonym collection = "string \<rightharpoonup> pydict"

definition insert_one :: "bool \<Rightarrow> collection \<Rightarrow> pydict \<Rightarrow> exn + collection" where
  "insert_one up coll doc =
     (if \<not> up then Inl PyMongoError
      else case map_of doc ''_id'' of
        Some (PStr doc_id) \<Rightarrow>
          if coll doc_id \<noteq> None then Inl DuplicateKeyError else Inr (coll(doc_id \<mapsto> doc))
      | _ \<Rightarrow> Inl PyMongoError)"

definition set_fields :: "pydict \<Rightarrow> pydict \<Rightarrow> pydict" where
  "set_fields doc updates = foldl (\<lambda>d (key, v). dict_set key v d) doc updates"

definition update_one :: "bool \<Rightarrow> collection \<Rightarrow> string \<Rightarrow> pydict \<Rightarrow> exn + collection \<times> nat" where
  "update_one up coll doc_id updates =
     (if \<not> up then Inl PyMongoError
      else case coll doc_id of
        None \<Rightarrow> Inr (coll, 0)
      | Some doc \<Rightarrow> Inr (coll(doc_id \<mapsto> set_fields doc updates), 1))"

definition find_one :: "bool \<Rightarrow> collection \<Rightarrow> string \<Rightarrow> exn + pydict option" where
  "find_one up coll doc_id = (if \<not> up then Inl PyMongoError else Inr (coll doc_id))"

text \<open>The methods of \<^verbatim>\<open>MongoDBService\<close>; each handler logs and raises again.\<close>

definition create_document :: "pylib \<Rightarrow> bool \<Rightarrow> collection \<Rightarrow> string \<Rightarrow> pydict \<Rightarrow> exn + collection" where
  "create_document lib up coll document_id data =
     (let data1 = dict_set ''_id'' (PStr document_id) data;
          data2 = dict_set ''jobId'' (PStr document_id) data1;
          processed_data = prepare_data_for_mongodb lib data2
      in insert_one up coll processed_data)"

definition update_document :: "pylib \<Rightarrow> bool \<Rightarrow> collection \<Rightarrow> string \<Rightarrow> pydict \<Rightarrow> exn + collection" where
  "update_document lib up coll document_id data =
     (let processed_data = prepare_data_for_mongodb lib data
      in case update_one up coll document_id processed_data of
           Inl e \<Rightarrow> Inl e
         | Inr (coll', matched_count) \<Rightarrow> Inr coll')"

definition get_document :: "pylib \<Rightarrow> bool \<Rightarrow> collection \<Rightarrow> string \<Rightarrow> exn + pydict option" where
  "get_document lib up coll document_id =
     (case find_one up coll document_id of
        Inl e \<Rightarrow> Inl e
      | Inr None \<Rightarrow> Inr None
      | Inr (Some document) \<Rightarrow>
          if document \<noteq> [] then Inr (Some (process_data_from_mongodb lib document))
          else Inr None)"

text \<open>\<^verbatim>\<open>item.dict()\<close> of a \<^verbatim>\<open>DayItinerary\<close> and of the activities in it.\<close>

definition Activity_dict :: "Activity \<Rightarrow> pyval" where
  "Activity_dict a =
     PDict [(''time'', PStr (time a)), (''description'', PStr (description a)),
            (''location'', PStr (location a))]"

definition DayItinerary_dict :: "DayItinerary \<Rightarrow> pyval" where
  "DayItinerary_dict d =
     PDict [(''day'', PInt (day d)), (''theme'', PStr (theme d)),
            (''activities'', PList (map Activity_dict (activities d)))]"

definition mark_as_completed ::
  "pylib \<Rightarrow> bool \<Rightarrow> datetime \<Rightarrow> collection \<Rightarrow> string \<Rightarrow> DayItinerary list \<Rightarrow> exn + collection" where
  "mark_as_completed lib up utcnow coll document_id itinerary_data =
     (let update_data =
            [(''status'', PStr ''completed''),
             (''completedAt'', PDatetime utcnow),
             (''itinerary'', PList (map DayItinerary_dict itinerary_data)),
             (''error'', PNone)]
      in update_document lib up coll document_id update_data)"

definition mark_as_failed ::
  "pylib \<Rightarrow> bool \<Rightarrow> datetime \<Rightarrow> collection \<Rightarrow> string \<Rightarrow> string \<Rightarrow> exn + collection" where
  "mark_as_failed lib up utcnow coll document_id error_message =
     (let update_data =
            [(''status'', PStr ''failed''),
             (''completedAt'', PDatetime utcnow),
             (''error'', PStr error_message)]
      in update_document lib up coll document_id update_data)"

section \<open>Job orchestrator (services/itinerary\_generator.py)\<close>

text \<open>
  What the background task meets: the responses of the provider, whether the store is
  reachable when \<^verbatim>\<open>mark_as_completed\<close> and when \<^verbatim>\<open>mark_as_failed\<close> write, and the clock
  at each of them.
\<close>

record run_world =
  provider_responses :: "nat \<Rightarrow> http_result"
  up_at_completed :: bool
  up_at_failed :: bool
  utcnow_at_completed :: datetime
  utcnow_at_failed :: datetime

text \<open>
  What the task does to the store and the log, in order: a call of \<^verbatim>\<open>mark_as_completed\<close>
  or of \<^verbatim>\<open>mark_as_failed\<close> with whether it returned, and the two \<^verbatim>\<open>logger.error\<close> calls of
  the handlers.
\<close>

datatype run_event =
    MarkAsCompleted bool
  | MarkAsFailed bool
  | LogError exn
  | LogErrorUpdate exn

text \<open>The \<^verbatim>\<open>try\<close> block of \<^verbatim>\<open>generate_and_save_itinerary\<close>.\<close>

definition run_try ::
  "pylib \<Rightarrow> OpenAIService \<Rightarrow> run_world \<Rightarrow> collection \<Rightarrow> string \<Rightarrow> string \<Rightarrow> int
    \<Rightarrow> (exn + collection) \<times> run_event list" where
  "run_try lib openai w coll job_id dest duration_days =
     (case fst (generate_itinerary lib openai (provider_responses w)) of
        Inl e \<Rightarrow> (Inl e, [])
      | Inr itinerary \<Rightarrow>
          (case validate_itinerary itinerary duration_days of
             Inl e \<Rightarrow> (Inl e, [])
           | Inr _ \<Rightarrow>
               (case mark_as_completed lib (up_at_completed w) (utcnow_at_completed w)
                       coll job_id itinerary of
                  Inl e \<Rightarrow> (Inl e, [MarkAsCompleted False])
                | Inr coll' \<Rightarrow> (Inr coll', [MarkAsCompleted True]))))"

text \<open>The whole method, with \<^verbatim>\<open>except Exception as e\<close> and the \<^verbatim>\<open>try\<close> nested in it.\<close>

definition generate_and_save_itinerary ::
  "pylib \<Rightarrow> OpenAIService \<Rightarrow> run_world \<Rightarrow> collection \<Rightarrow> string \<Rightarrow> string \<Rightarrow> int
    \<Rightarrow> collection \<times> run_event list" where
  "generate_and_save_itinerary lib openai w coll job_id dest duration_days =
     (case run_try lib openai w coll job_id dest duration_days of
        (Inr coll', events) \<Rightarrow> (coll', events)
      | (Inl e, events) \<Rightarrow>
          (let error_message = ''Failed to generate itinerary: '' @ str_exn lib e
           in case mark_as_failed lib (up_at_failed w) (utcnow_at_failed w)
                     coll job_id error_message of
                Inr coll' \<Rightarrow> (coll', events @ [LogError e, MarkAsFailed True])
              | Inl mongodb_error \<Rightarrow>
                  (coll, events @ [LogError e, MarkAsFailed False, LogErrorUpdate mongodb_error])))"

text \<open>The terminal write attempts of a run, in order.\<close>

fun is_write :: "run_event \<Rightarrow> bool" where
  "is_write (MarkAsCompleted _) = True"
| "is_write (MarkAsFailed _) = True"
| "is_write _ = False"

definition terminal_writes :: "run_event list \<Rightarrow> run_event list" where
  "terminal_writes events = filter is_write events"

section \<open>Request router (main.py)\<close>

text \<open>
  \<^verbatim>\<open>TravelRequest(destination=..., durationDays=...)\<close>: \<^verbatim>\<open>destination\<close> is a required
  string, \<^verbatim>\<open>durationDays\<close> is declared \<^verbatim>\<open>gt=0, le=30\<close>.
\<close>

definition new_TravelRequest :: "string \<Rightarrow> int \<Rightarrow> exn + TravelRequest" where
  "new_TravelRequest dest days =
     (if 0 < days \<and> days \<le> 30 then Inr \<lparr>destination = dest, durationDays = days\<rparr>
      else Inl PydanticValidationError)"

text \<open>\<^verbatim>\<open>initial_data.dict()\<close> of the \<^verbatim>\<open>ItineraryData\<close> built by the endpoint.\<close>

definition initial_data_dict :: "TravelRequest \<Rightarrow> datetime \<Rightarrow> pydict" where
  "initial_data_dict request utcnow =
     [(''status'', PStr ''processing''),
      (''destination'', PStr (destination request)),
      (''durationDays'', PInt (durationDays request)),
      (''createdAt'', PDatetime utcnow),
      (''completedAt'', PNone),
      (''itinerary'', PList []),
      (''error'', PNone)]"

text \<open>
  \<^verbatim>\<open>POST /generate-itinerary\<close>. The framework builds the \<^verbatim>\<open>TravelRequest\<close> from the body
  before the handler runs and answers 422 when that fails. The result is the reply, the
  collection, and the background tasks added: job id, destination and duration.
\<close>

datatype reply = Accepted string | ClientError int | ServerError exn

definition post_generate_itinerary ::
  "pylib \<Rightarrow> bool \<Rightarrow> datetime \<Rightarrow> string \<Rightarrow> string \<Rightarrow> int \<Rightarrow> collection
    \<Rightarrow> reply \<times> collection \<times> (string \<times> string \<times> int) list" where
  "post_generate_itinerary lib up utcnow job_id dest days coll =
     (case new_TravelRequest dest days of
        Inl e \<Rightarrow> (ClientError 422, coll, [])
      | Inr request \<Rightarrow>
          (case create_document lib up coll job_id (initial_data_dict request utcnow) of
             Inl e \<Rightarrow>
               (ServerError (HTTPException 500 ''Failed to process request: '' (Some e)), coll, [])
           | Inr coll' \<Rightarrow>
               (Accepted job_id, coll', [(job_id, destination request, durationDays request)])))"

text \<open>\<^verbatim>\<open>GET /job-status/{job_id}\<close>: the \<^verbatim>\<open>try\<close> block, then \<^verbatim>\<open>except Exception as e\<close>.\<close>

definition get_job_status_try :: "pylib \<Rightarrow> bool \<Rightarrow> collection \<Rightarrow> string \<Rightarrow> exn + pydict" where
  "get_job_status_try lib up coll job_id =
     (case get_document lib up coll job_id of
        Inl e \<Rightarrow> Inl e
      | Inr None \<Rightarrow> Inl (HTTPException 404 ''Job ID not found'' None)
      | Inr (Some document) \<Rightarrow>
          if document = [] then Inl (HTTPException 404 ''Job ID not found'' None)
          else Inr document)"

definition get_job_status :: "pylib \<Rightarrow> bool \<Rightarrow> collection \<Rightarrow> string \<Rightarrow> exn + pydict" where
  "get_job_status lib up coll job_id =
     (case get_job_status_try lib up coll job_id of
        Inl e \<Rightarrow> Inl (HTTPException 500 ''Failed to retrieve job status: '' (Some e))
      | Inr document \<Rightarrow> Inr document)"

text \<open>The status code of the reply to a status query.\<close>

fun status_code :: "exn + pydict \<Rightarrow> int" where
  "status_code (Inr _) = 200"
| "status_code (Inl (HTTPException code _ _)) = code"
| "status_code (Inl _) = 500"

section \<open>The invariant of a stored job record\<close>

text \<open>
  The itinerary of a stored record and the \<^verbatim>\<open>day\<close> values in it. A record satisfies the
  invariant when the length of its itinerary equals \<^verbatim>\<open>durationDays\<close> exactly when its
  status is \<^verbatim>\<open>completed\<close>, and when the day values of a completed record are
  1, 2, ..., \<^verbatim>\<open>durationDays\<close> in this order.
\<close>

definition itinerary_of :: "pydict \<Rightarrow> pyval list" where
  "itinerary_of doc = (case map_of doc ''itinerary'' of Some (PList xs) \<Rightarrow> xs | _ \<Rightarrow> [])"

definition day_values :: "pydict \<Rightarrow> pyval option list" where
  "day_values doc =
     map (\<lambda>x. case x of PDict d \<Rightarrow> map_of d ''day'' | _ \<Rightarrow> None) (itinerary_of doc)"

definition is_completed :: "pydict \<Rightarrow> bool" where
  "is_completed doc = (map_of doc ''status'' = Some (PStr ''completed''))"

definition job_invariant :: "pydict \<Rightarrow> bool" where
  "job_invariant doc =
     (case map_of doc ''durationDays'' of
        Some (PInt n) \<Rightarrow>
          (int (length (itinerary_of doc)) = n) = is_completed doc
          \<and> (\<not> is_completed doc
              \<or> day_values doc = map (\<lambda>i. Some (PInt (int i))) [1 ..< Suc (nat n)])
      | _ \<Rightarrow> False)"

text \<open>Generation and validation both succeed: the condition under which the task
  calls \<^verbatim>\<open>mark_as_completed\<close>.\<close>

definition generated_and_valid :: "pylib \<Rightarrow> OpenAIService \<Rightarrow> run_world \<Rightarrow> int \<Rightarrow> bool" where
  "generated_and_valid lib openai w duration_days =
     (case fst (generate_itinerary lib openai (provider_responses w)) of
        Inl e \<Rightarrow> False
      | Inr itinerary \<Rightarrow> validate_itinerary itinerary duration_days = Inr ())"

section \<open>Concrete inputs\<close>

text \<open>A day's three activities, a well-formed plan of three days, and a plan of two days
  whose first day lacks a theme and whose second day is numbered 5.\<close>

definition three_activities :: "Activity list" where
  "three_activities =
     [\<lparr>time = ''Morning'', description = ''Visit the Louvre'', location = ''Louvre Museum''\<rparr>,
      \<lparr>time = ''Afternoon'', description = ''Walk along the Seine'', location = ''Pont Neuf''\<rparr>,
      \<lparr>time = ''Evening'', description = ''Dinner'', location = ''Le Marais''\<rparr>]"

definition paris_three_days :: "DayItinerary list" where
  "paris_three_days =
     [\<lparr>day = 1, theme = ''Historical Paris'', activities = three_activities\<rparr>,
      \<lparr>day = 2, theme = ''Art'', activities = three_activities\<rparr>,
      \<lparr>day = 3, theme = ''Food'', activities = three_activities\<rparr>]"


text \<open>
  An instance of the library functions: \<^verbatim>\<open>json.loads\<close> on three texts (the plan of three
  days, an object without keys, and anything else, which does not parse), fields that
  accept values of their own type, and the ISO format on three points in time.
\<close>

definition noon :: datetime where
  "noon = Datetime 2024 5 1 12 0 0 0"

definition half_past_noon :: datetime where
  "half_past_noon = Datetime 2024 5 1 12 30 0 0"

definition plain_lib :: pylib where
  "plain_lib =
     \<lparr>json_loads = (\<lambda>s.
        if s = ''paris'' then Some (PDict [(''itinerary'', PList (map DayItinerary_dict paris_three_days))])
        else if s = ''{}'' then Some (PDict [])
        else None),
      coerce_str = (\<lambda>v. case v of PStr s \<Rightarrow> Some s | _ \<Rightarrow> None),
      coerce_int = (\<lambda>v. case v of PInt n \<Rightarrow> Some n | _ \<Rightarrow> None),
      str_exn = (\<lambda>e. ''error''),
      isoformat = (\<lambda>d. if d = noon then ''2024-05-01T12:00:00'' else ''2024-05-01T12:30:00''),
      fromisoformat = (\<lambda>s.
        if s = ''2024-05-01T12:00:00'' then Some noon
        else if s = ''2024-05-01T12:30:00'' then Some half_past_noon
        else if s = ''2023-01-01'' then Some (Datetime 2023 1 1 0 0 0 0)
        else None)\<rparr>"

text \<open>Responses of the provider: a completion carrying a content, and a rate limit.\<close>

definition completion :: "string \<Rightarrow> response" where
  "completion content =
     \<lparr>status = 200,
      json = PDict [(''choices'', PList [PDict [(''message'', PDict [(''content'', PStr content)])]])],
      text_of = []\<rparr>"

definition rate_limited :: response where
  "rate_limited = \<lparr>status = 429, json = PNone, text_of = ''rate limit''\<rparr>"

definition server_error :: response where
  "server_error = \<lparr>status = 500, json = PNone, text_of = ''internal error''\<rparr>"

definition answers :: "http_result list \<Rightarrow> nat \<Rightarrow> http_result" where
  "answers rs k = (if k < length rs then rs ! k else Raises AsyncioTimeoutError)"

text \<open>
  A collection holding the record of job \<open>job-1\<close> as the endpoint creates it, and two
  runs of the background task on a well-formed completion: one where the store is
  unreachable for \<^verbatim>\<open>mark_as_completed\<close> and reachable again for \<^verbatim>\<open>mark_as_failed\<close>, and
  one where it is reachable throughout.
\<close>

definition one_job :: collection where
  "one_job = fst (snd (post_generate_itinerary plain_lib True noon ''job-1'' ''Paris, France'' 3 Map.empty))"

definition store_down_then_up :: run_world where
  "store_down_then_up =
     \<lparr>provider_responses = answers [Response (completion ''paris'')],
      up_at_completed = False, up_at_failed = True,
      utcnow_at_completed = half_past_noon, utcnow_at_failed = half_past_noon\<rparr>"

definition store_up :: run_world where
  "store_up =
     \<lparr>provider_responses = answers [Response (completion ''paris'')],
      up_at_completed = True, up_at_failed = True,
      utcnow_at_completed = half_past_noon, utcnow_at_failed = half_past_noon\<rparr>"

text \<open>A run where the provider answers with status 500 and the store is unreachable.\<close>

definition store_down :: run_world where
  "store_down =
     \<lparr>provider_responses = answers [Response server_error],
      up_at_completed = False, up_at_failed = False,
      utcnow_at_completed = half_past_noon, utcnow_at_failed = half_past_noon\<rparr>"

section \<open>Properties of the content validator\<close>













section \<open>Properties of the generation client\<close>

declare generate_loop.simps [simp del]

text \<open>No step of the handling of a status-200 response raises an exception that the
  handlers of the retry loop catch.\<close>

lemma getitem_error: "getitem v k = Inl e \<Longrightarrow> \<not> transport_error e"
  by (cases v) (auto split: option.splits)

lemma getitem0_error: "getitem0 v = Inl e \<Longrightarrow> \<not> transport_error e"
  by (induction v rule: getitem0.induct) auto

lemma py_iter_error: "py_iter v = Inl e \<Longrightarrow> \<not> transport_error e"
  by (cases v) auto

lemma strip_method_error: "strip_method v = Inl e \<Longrightarrow> \<not> transport_error e"
  by (cases v) auto

lemma get_day_or_unknown_error: "get_day_or_unknown v = Inl e \<Longrightarrow> \<not> transport_error e"
  by (cases v) (auto split: option.splits)

lemma new_Activity_error: "new_Activity lib t d l = Inl e \<Longrightarrow> \<not> transport_error e"
  by (auto simp: new_Activity_def split: option.splits)

lemma new_DayItinerary_error: "new_DayItinerary lib n t acts = Inl e \<Longrightarrow> \<not> transport_error e"
  by (auto simp: new_DayItinerary_def split: option.splits if_splits)

lemma parse_activity_error: "parse_activity lib a = Inl e \<Longrightarrow> \<not> transport_error e"
  by (auto simp: parse_activity_def split: sum.splits
      dest: getitem_error new_Activity_error)

lemma parse_activities_error: "parse_activities lib xs = Inl e \<Longrightarrow> \<not> transport_error e"
  by (induction xs arbitrary: e) (auto split: sum.splits dest: parse_activity_error)

lemma parse_day_try_error: "parse_day_try lib v = Inl e \<Longrightarrow> \<not> transport_error e"
  by (auto simp: parse_day_try_def split: sum.splits
      dest: getitem_error py_iter_error parse_activities_error new_DayItinerary_error)

lemma parse_day_error: "parse_day lib v = Inl e \<Longrightarrow> \<not> transport_error e"
  by (auto simp: parse_day_def split: sum.splits if_splits
      dest: parse_day_try_error get_day_or_unknown_error)

lemma parse_days_error: "parse_days lib xs = Inl e \<Longrightarrow> \<not> transport_error e"
  by (induction xs arbitrary: e) (auto split: sum.splits dest: parse_day_error)

lemma parse_itinerary_error: "parse_itinerary lib v = Inl e \<Longrightarrow> \<not> transport_error e"
  by (auto simp: parse_itinerary_def split: sum.splits dest: py_iter_error parse_days_error)

lemma response_content_error: "response_content v = Inl e \<Longrightarrow> \<not> transport_error e"
  by (auto simp: response_content_def split: sum.splits
      dest: getitem_error getitem0_error strip_method_error)

lemma parse_content_try_error: "parse_content_try lib s = Inl e \<Longrightarrow> \<not> transport_error e"
  by (auto simp: parse_content_try_def split: option.splits sum.splits
      dest: getitem_error parse_itinerary_error)

lemma parse_content_error: "parse_content lib s = Inl e \<Longrightarrow> \<not> transport_error e"
  by (auto simp: parse_content_def split: sum.splits if_splits dest: parse_content_try_error)

lemma on_status_200_error: "on_status_200 lib resp = Inl e \<Longrightarrow> \<not> transport_error e"
  by (auto simp: on_status_200_def split: sum.splits
      dest: response_content_error parse_content_error)

lemma loop_body_retryable:
  "retryable r \<Longrightarrow> loop_body lib self k r =
     (if int k < max_retries self - 1 then SleepContinue (retry_delay self * 2 ^ k)
      else Raise (terminal_failure r))"
  by (induction r rule: retryable.induct)
     (auto simp: loop_body_def try_block_def wait_time_def)

lemma loop_body_200_error:
  "status resp = 200 \<Longrightarrow> on_status_200 lib resp = Inl e
     \<Longrightarrow> loop_body lib self k (Response resp) = Raise e"
  by (frule on_status_200_error) (cases e; simp add: loop_body_def try_block_def)

lemma loop_body_200_ok:
  "status resp = 200 \<Longrightarrow> on_status_200 lib resp = Inr it
     \<Longrightarrow> loop_body lib self k (Response resp) = Return it"
  by (simp add: loop_body_def try_block_def)

lemma loop_body_other_status:
  "status resp \<noteq> 200 \<Longrightarrow> status resp \<noteq> 429
     \<Longrightarrow> loop_body lib self k (Response resp) = Raise (OpenAIAPIError (status resp) (text_of resp))"
  by (simp add: loop_body_def try_block_def)

lemma loop_body_SleepContinue:
  "loop_body lib self k r = SleepContinue d
     \<Longrightarrow> d = retry_delay self * 2 ^ k \<and> int k < max_retries self - 1 \<and> retryable r"
  by (auto simp: loop_body_def try_block_def wait_time_def
      split: http_result.splits if_splits sum.splits flow.splits exn.splits
      dest: on_status_200_error)

lemma retried_Suc: "retried self k (Suc m) = [Post k, Sleep (retry_delay self * 2 ^ k)] @ retried self (Suc k) m"
  by (simp add: retried_def upt_conv_Cons del: upt_Suc)

lemma retried_0: "retried self k 0 = []"
  by (simp add: retried_def)

text \<open>Retryable outcomes with budget left: the loop goes on.\<close>

lemma generate_loop_retried:
  "(\<forall>j. k \<le> j \<and> j < k + m \<longrightarrow> retryable (responses j)) \<Longrightarrow> int (k + m) < max_retries self
    \<Longrightarrow> generate_loop lib self responses k tr
        = generate_loop lib self responses (k + m) (tr @ retried self k m)"
proof (induction m arbitrary: k tr)
  case 0
  then show ?case by (simp add: retried_0)
next
  case (Suc m)
  have r: "retryable (responses k)" using Suc.prems(1) by simp
  have b: "int k < max_retries self - 1" "int k < max_retries self" using Suc.prems(2) by simp_all
  have step: "generate_loop lib self responses k tr
      = generate_loop lib self responses (Suc k) (tr @ [Post k, Sleep (retry_delay self * 2 ^ k)])"
    using b by (subst generate_loop.simps) (simp add: loop_body_retryable [OF r])
  have "generate_loop lib self responses (Suc k) (tr @ [Post k, Sleep (retry_delay self * 2 ^ k)])
      = generate_loop lib self responses (Suc k + m)
          ((tr @ [Post k, Sleep (retry_delay self * 2 ^ k)]) @ retried self (Suc k) m)"
    using Suc.prems by (intro Suc.IH) auto
  with step show ?case by (simp add: retried_Suc)
qed

lemma generate_loop_Raise:
  "int k < max_retries self \<Longrightarrow> loop_body lib self k (responses k) = Raise e
    \<Longrightarrow> generate_loop lib self responses k tr = (Inl e, tr @ [Post k])"
  by (subst generate_loop.simps) simp

lemma generate_loop_Return:
  "int k < max_retries self \<Longrightarrow> loop_body lib self k (responses k) = Return it
    \<Longrightarrow> generate_loop lib self responses k tr = (Inr it, tr @ [Post k])"
  by (subst generate_loop.simps) simp

text \<open>The shape of every trace.\<close>

lemma generate_loop_trace:
  "int k < max_retries self \<Longrightarrow>
    \<exists>m. int (k + m) < max_retries self
       \<and> snd (generate_loop lib self responses k tr) = tr @ retried self k m @ [Post (k + m)]"
proof (induction lib self responses k tr rule: generate_loop.induct)
  case (1 lib self responses attempt trace)
  show ?case
  proof (cases "loop_body lib self attempt (responses attempt)")
    case (Return it)
    with "1.prems" have "snd (generate_loop lib self responses attempt trace) = trace @ retried self attempt 0 @ [Post (attempt + 0)]"
      by (simp add: generate_loop_Return retried_0)
    with "1.prems" show ?thesis by (metis add.right_neutral)
  next
    case (Raise e)
    with "1.prems" have "snd (generate_loop lib self responses attempt trace) = trace @ retried self attempt 0 @ [Post (attempt + 0)]"
      by (simp add: generate_loop_Raise retried_0)
    with "1.prems" show ?thesis by (metis add.right_neutral)
  next
    case (SleepContinue d)
    from loop_body_SleepContinue [OF this]
    have d: "d = retry_delay self * 2 ^ attempt" and b: "int (attempt + 1) < max_retries self" by auto
    from "1.IH" [OF "1.prems" SleepContinue b]
    obtain m where m: "int (attempt + 1 + m) < max_retries self"
      "snd (generate_loop lib self responses (attempt + 1) (trace @ [Post attempt, Sleep d]))
        = (trace @ [Post attempt, Sleep d]) @ retried self (attempt + 1) m @ [Post (attempt + 1 + m)]"
      by blast
    have "snd (generate_loop lib self responses attempt trace)
        = trace @ retried self attempt (Suc m) @ [Post (attempt + Suc m)]"
      using "1.prems" SleepContinue m(2) d
      by (subst generate_loop.simps) (simp add: retried_Suc)
    moreover have "int (attempt + Suc m) < max_retries self" using m(1) by simp
    ultimately show ?thesis by blast
  qed
qed

lemma attempts_made_retried: "attempts_made (retried self k m) = m"
  by (induction m arbitrary: k) (simp_all add: retried_0 retried_Suc attempts_made_def)

lemma delays_retried: "delays (retried self k m) = map (\<lambda>j. retry_delay self * 2 ^ j) [k ..< k + m]"
  by (induction m arbitrary: k) (simp_all add: retried_0 retried_Suc upt_conv_Cons del: upt_Suc)

lemma delays_append: "delays (xs @ ys) = delays xs @ delays ys"
  by (induction xs rule: delays.induct) auto


lemma generate_loop_attempts:
  "int k < max_retries self \<Longrightarrow>
     attempts_made (snd (generate_loop lib self responses k [])) \<le> nat (max_retries self) - k"
proof -
  assume b: "int k < max_retries self"
  from generate_loop_trace [OF b, of lib responses "[]"]
  obtain m where m: "int (k + m) < max_retries self"
    "snd (generate_loop lib self responses k []) = [] @ retried self k m @ [Post (k + m)]" by blast
  have "attempts_made (retried self k m @ [Post (k + m)]) = m + 1"
    using attempts_made_retried [of self k m] by (simp add: attempts_made_def)
  with m show ?thesis by simp
qed

text \<open>
  Claim C3. With \<^verbatim>\<open>max_retries = 3\<close>, at most 3 requests are made. An attempt that
  meets a rate-limit response, a request timeout or a network error is followed by the
  next attempt while fewer than the last attempt has been made. Any other status than
  200 and 429 ends the call at once with \<open>OpenAIAPIError\<close>, the requests made being
  those up to that attempt. When the third attempt meets a retryable condition the call
  ends with the terminal failure of that condition and no fourth request.
\<close>

theorem generate_itinerary_retry_policy:
  "attempts_made (snd (generate_itinerary lib OpenAIService_init responses)) \<le> 3
   \<and> (\<forall>k. k < 2 \<and> (\<forall>j\<le>k. retryable (responses j))
        \<longrightarrow> Post (Suc k) \<in> set (snd (generate_itinerary lib OpenAIService_init responses)))
   \<and> (\<forall>k resp. k < 3 \<and> (\<forall>j<k. retryable (responses j)) \<and> responses k = Response resp
            \<and> status resp \<noteq> 200 \<and> status resp \<noteq> 429
        \<longrightarrow> generate_itinerary lib OpenAIService_init responses
              = (Inl (OpenAIAPIError (status resp) (text_of resp)),
                 retried OpenAIService_init 0 k @ [Post k]))
   \<and> ((\<forall>j<3. retryable (responses j))
        \<longrightarrow> generate_itinerary lib OpenAIService_init responses
              = (Inl (terminal_failure (responses 2)), retried OpenAIService_init 0 2 @ [Post 2]))"
proof (intro conjI allI impI)
  let ?self = OpenAIService_init
  have mr: "max_retries ?self = 3" by (simp add: OpenAIService_init_def)
  show "attempts_made (snd (generate_itinerary lib ?self responses)) \<le> 3"
    using generate_loop_attempts [of 0 ?self lib responses] mr
    by (simp add: generate_itinerary_def)
next
  let ?self = OpenAIService_init
  have mr: "max_retries ?self = 3" by (simp add: OpenAIService_init_def)
  fix k assume a: "k < 2 \<and> (\<forall>j\<le>k. retryable (responses j))"
  then have "generate_loop lib ?self responses 0 []
      = generate_loop lib ?self responses (0 + Suc k) ([] @ retried ?self 0 (Suc k))"
    using mr by (intro generate_loop_retried) auto
  moreover from a mr have "int (Suc k) < max_retries ?self" by simp
  from generate_loop_trace [OF this, of lib responses "retried ?self 0 (Suc k)"]
  have "Post (Suc k) \<in> set (snd (generate_loop lib ?self responses (Suc k) (retried ?self 0 (Suc k))))"
    by (auto simp: retried_def)
  ultimately show "Post (Suc k) \<in> set (snd (generate_itinerary lib ?self responses))"
    by (simp add: generate_itinerary_def)
next
  let ?self = OpenAIService_init
  have mr: "max_retries ?self = 3" by (simp add: OpenAIService_init_def)
  fix k resp
  assume a: "k < 3 \<and> (\<forall>j<k. retryable (responses j)) \<and> responses k = Response resp
            \<and> status resp \<noteq> 200 \<and> status resp \<noteq> 429"
  then have "generate_loop lib ?self responses 0 []
      = generate_loop lib ?self responses (0 + k) ([] @ retried ?self 0 k)"
    using mr by (intro generate_loop_retried) auto
  moreover have "generate_loop lib ?self responses k (retried ?self 0 k)
      = (Inl (OpenAIAPIError (status resp) (text_of resp)), retried ?self 0 k @ [Post k])"
    using a mr by (intro generate_loop_Raise) (auto simp: loop_body_other_status)
  ultimately show "generate_itinerary lib ?self responses
      = (Inl (OpenAIAPIError (status resp) (text_of resp)), retried ?self 0 k @ [Post k])"
    by (simp add: generate_itinerary_def)
next
  let ?self = OpenAIService_init
  have mr: "max_retries ?self = 3" by (simp add: OpenAIService_init_def)
  assume a: "\<forall>j<3. retryable (responses j)"
  then have "generate_loop lib ?self responses 0 []
      = generate_loop lib ?self responses (0 + 2) ([] @ retried ?self 0 2)"
    using mr by (intro generate_loop_retried) auto
  then have "generate_loop lib ?self responses 0 []
      = generate_loop lib ?self responses 2 (retried ?self 0 2)"
    by (simp only: add_0 append_Nil)
  moreover have "generate_loop lib ?self responses 2 (retried ?self 0 2)
      = (Inl (terminal_failure (responses 2)), retried ?self 0 2 @ [Post 2])"
    using a mr by (intro generate_loop_Raise) (auto simp: loop_body_retryable)
  ultimately show "generate_itinerary lib ?self responses
      = (Inl (terminal_failure (responses 2)), retried ?self 0 2 @ [Post 2])"
    by (simp add: generate_itinerary_def)
qed



text \<open>
  The theorem where a rate limit, a timeout and a network error follow each other, and
  where a rate limit is followed by status 500.
\<close>

theorem generate_itinerary_retry_policy_witness:
  "attempts_made (snd (generate_itinerary plain_lib OpenAIService_init
      (answers [Response rate_limited, Raises AsyncioTimeoutError, Raises (AiohttpClientError ''reset'')]))) \<le> 3
   \<and> Post 2 \<in> set (snd (generate_itinerary plain_lib OpenAIService_init
      (answers [Response rate_limited, Raises AsyncioTimeoutError, Raises (AiohttpClientError ''reset'')])))
   \<and> generate_itinerary plain_lib OpenAIService_init
        (answers [Response rate_limited, Raises AsyncioTimeoutError, Raises (AiohttpClientError ''reset'')])
      = (Inl (NetworkError (AiohttpClientError ''reset'')), [Post 0, Sleep 1, Post 1, Sleep 2, Post 2])
   \<and> generate_itinerary plain_lib OpenAIService_init (answers [Response rate_limited, Response server_error])
      = (Inl (OpenAIAPIError 500 ''internal error''), [Post 0, Sleep 1, Post 1])"
proof -
  let ?a = "answers [Response rate_limited, Raises AsyncioTimeoutError, Raises (AiohttpClientError ''reset'')]"
  let ?b = "answers [Response rate_limited, Response server_error]"
  have ra: "\<forall>j<3. retryable (?a j)"
    by (simp add: answers_def rate_limited_def less_Suc_eq numeral_3_eq_3)
  have rb: "\<forall>j<1. retryable (?b j)"
    by (simp add: answers_def rate_limited_def)
  have r2: "retried OpenAIService_init 0 2 = [Post 0, Sleep 1, Post 1, Sleep 2]"
    by (simp add: retried_def OpenAIService_init_def upt_rec)
  have r1: "retried OpenAIService_init 0 (Suc 0) = [Post 0, Sleep 1]"
    by (simp add: retried_def OpenAIService_init_def)
  note p = generate_itinerary_retry_policy [of plain_lib ?a]
  note q = generate_itinerary_retry_policy [of plain_lib ?b]
  have 1: "attempts_made (snd (generate_itinerary plain_lib OpenAIService_init ?a)) \<le> 3"
    using p by blast
  have 2: "Post 2 \<in> set (snd (generate_itinerary plain_lib OpenAIService_init ?a))"
  proof -
    from p have "(1::nat) < 2 \<and> (\<forall>j\<le>1. retryable (?a j))
        \<longrightarrow> Post (Suc 1) \<in> set (snd (generate_itinerary plain_lib OpenAIService_init ?a))"
      by blast
    moreover have "\<forall>j\<le>1. retryable (?a j)" using ra by simp
    ultimately show ?thesis by (simp add: numeral_2_eq_2)
  qed
  have 3: "generate_itinerary plain_lib OpenAIService_init ?a
      = (Inl (terminal_failure (?a 2)), retried OpenAIService_init 0 2 @ [Post 2])"
    using p ra by blast
  have 4: "generate_itinerary plain_lib OpenAIService_init ?b
      = (Inl (OpenAIAPIError (status server_error) (text_of server_error)),
         retried OpenAIService_init 0 1 @ [Post 1])"
  proof -
    have "1 < (3::nat) \<and> (\<forall>j<1. retryable (?b j)) \<and> ?b 1 = Response server_error
      \<and> status server_error \<noteq> 200 \<and> status server_error \<noteq> 429"
      using rb by (simp add: answers_def server_error_def)
    with q show ?thesis by blast
  qed
  show ?thesis using 1 2 3 4
    by (simp add: r1 r2 answers_def server_error_def)
qed

lemma generate_itinerary_trace:
  "0 < max_retries self \<Longrightarrow>
    \<exists>m. int m < max_retries self
      \<and> snd (generate_itinerary lib self responses) = retried self 0 m @ [Post m]"
  using generate_loop_trace [of 0 self lib responses "[]"]
  by (simp add: generate_itinerary_def)

lemma delays_retried_Post:
  "delays (retried self 0 m @ [Post m]) = map (\<lambda>k. retry_delay self * 2 ^ k) [0 ..< m]"
  using delays_retried [of self 0 m] by (simp add: delays_append)

lemma generate_itinerary_200_after_retries:
  assumes "int k < max_retries self" "\<forall>j<k. retryable (responses j)"
    "responses k = Response resp" "status resp = 200"
  shows "generate_itinerary lib self responses =
    (case on_status_200 lib resp of Inl e \<Rightarrow> Inl e | Inr it \<Rightarrow> Inr it, retried self 0 k @ [Post k])"
proof -
  have "generate_loop lib self responses 0 []
      = generate_loop lib self responses (0 + k) ([] @ retried self 0 k)"
    using assms by (intro generate_loop_retried) auto
  then have 1: "generate_loop lib self responses 0 []
      = generate_loop lib self responses k (retried self 0 k)"
    by (simp only: add_0 append_Nil)
  show ?thesis
  proof (cases "on_status_200 lib resp")
    case (Inl e)
    then have "generate_loop lib self responses k (retried self 0 k) = (Inl e, retried self 0 k @ [Post k])"
      using assms by (intro generate_loop_Raise) (auto simp: loop_body_200_error)
    with 1 Inl show ?thesis by (simp add: generate_itinerary_def)
  next
    case (Inr it)
    then have "generate_loop lib self responses k (retried self 0 k) = (Inr it, retried self 0 k @ [Post k])"
      using assms by (intro generate_loop_Return) (auto simp: loop_body_200_ok)
    with 1 Inr show ?thesis by (simp add: generate_itinerary_def)
  qed
qed


text \<open>
  Claim C6. The trace of the client is \<open>m\<close> retried attempts followed by one last
  request, and the sleep after the request of attempt \<open>k\<close> (counted from 0) is
  \<^verbatim>\<open>retry_delay * 2 ** k\<close>. With a rate limit on the first and second attempt and a
  well-formed completion on the third, the call returns the itinerary, the delays are
  1 and 2, and they increase strictly.
\<close>

theorem generate_itinerary_backoff:
  "(0 < max_retries self \<longrightarrow>
      (\<exists>m. int m < max_retries self
         \<and> snd (generate_itinerary lib self responses) = retried self 0 m @ [Post m]
         \<and> delays (snd (generate_itinerary lib self responses))
             = map (\<lambda>k. retry_delay self * 2 ^ k) [0 ..< m]))
   \<and> (responses 0 = Response r0 \<and> status r0 = 429
       \<and> responses 1 = Response r1 \<and> status r1 = 429
       \<and> responses 2 = Response r2 \<and> status r2 = 200 \<and> on_status_200 lib r2 = Inr itinerary
      \<longrightarrow> fst (generate_itinerary lib OpenAIService_init responses) = Inr itinerary
         \<and> delays (snd (generate_itinerary lib OpenAIService_init responses)) = [1, 2]
         \<and> sorted_wrt (<) (delays (snd (generate_itinerary lib OpenAIService_init responses))))"
proof (intro conjI impI)
  assume "0 < max_retries self"
  from generate_itinerary_trace [OF this, of lib responses]
  obtain m where m: "int m < max_retries self"
    "snd (generate_itinerary lib self responses) = retried self 0 m @ [Post m]" by blast
  then show "\<exists>m. int m < max_retries self
         \<and> snd (generate_itinerary lib self responses) = retried self 0 m @ [Post m]
         \<and> delays (snd (generate_itinerary lib self responses))
             = map (\<lambda>k. retry_delay self * 2 ^ k) [0 ..< m]"
    using delays_retried_Post [of self m] by auto
next
  assume a: "responses 0 = Response r0 \<and> status r0 = 429
       \<and> responses 1 = Response r1 \<and> status r1 = 429
       \<and> responses 2 = Response r2 \<and> status r2 = 200 \<and> on_status_200 lib r2 = Inr itinerary"
  have "\<forall>j<2. retryable (responses j)"
  proof (intro allI impI)
    fix j :: nat assume "j < 2"
    then have "j = 0 \<or> j = 1" by auto
    with a show "retryable (responses j)" by auto
  qed
  then have g: "generate_itinerary lib OpenAIService_init responses
      = (Inr itinerary, retried OpenAIService_init 0 2 @ [Post 2])"
    using a generate_itinerary_200_after_retries [of 2 OpenAIService_init responses r2 lib]
    by (simp add: OpenAIService_init_def)
  have d: "delays (retried OpenAIService_init 0 2 @ [Post 2]) = [1, 2]"
    by (simp add: delays_retried_Post OpenAIService_init_def upt_rec)
  show "fst (generate_itinerary lib OpenAIService_init responses) = Inr itinerary"
    using g by simp
  show "delays (snd (generate_itinerary lib OpenAIService_init responses)) = [1, 2]"
    using g d by simp
  show "sorted_wrt (<) (delays (snd (generate_itinerary lib OpenAIService_init responses)))"
    using g d by simp
qed


text \<open>The theorem on two rate limits followed by the completion of the Paris plan.\<close>

lemma completion_paris: "on_status_200 plain_lib (completion ''paris'') = Inr paris_three_days"
  by (simp add: on_status_200_def completion_def response_content_def parse_content_def
      parse_content_try_def plain_lib_def py_strip_def py_isspace_def parse_itinerary_def
      paris_three_days_def three_activities_def DayItinerary_dict_def Activity_dict_def
      parse_day_def parse_day_try_def parse_activity_def new_Activity_def new_DayItinerary_def)

theorem generate_itinerary_backoff_witness:
  "snd (generate_itinerary plain_lib OpenAIService_init
         (answers [Response rate_limited, Response rate_limited, Response (completion ''paris'')]))
     = [Post 0, Sleep 1, Post 1, Sleep 2, Post 2]
   \<and> fst (generate_itinerary plain_lib OpenAIService_init
         (answers [Response rate_limited, Response rate_limited, Response (completion ''paris'')]))
     = Inr paris_three_days
   \<and> delays (snd (generate_itinerary plain_lib OpenAIService_init
         (answers [Response rate_limited, Response rate_limited, Response (completion ''paris'')])))
     = [1, 2]"
proof -
  let ?a = "answers [Response rate_limited, Response rate_limited, Response (completion ''paris'')]"
  note t = generate_itinerary_backoff [of OpenAIService_init plain_lib ?a rate_limited rate_limited
      "completion ''paris''" paris_three_days]
  have h: "?a 0 = Response rate_limited \<and> status rate_limited = 429
       \<and> ?a 1 = Response rate_limited \<and> status rate_limited = 429
       \<and> ?a 2 = Response (completion ''paris'') \<and> status (completion ''paris'') = 200
       \<and> on_status_200 plain_lib (completion ''paris'') = Inr paris_three_days"
    by (simp add: answers_def rate_limited_def completion_paris) (simp add: completion_def)
  have p: "0 < max_retries OpenAIService_init" by (simp add: OpenAIService_init_def)
  from t p obtain m where m:
    "snd (generate_itinerary plain_lib OpenAIService_init ?a) = retried OpenAIService_init 0 m @ [Post m]"
    "delays (snd (generate_itinerary plain_lib OpenAIService_init ?a))
       = map (\<lambda>k. retry_delay OpenAIService_init * 2 ^ k) [0 ..< m]"
    by blast
  from t h have r: "fst (generate_itinerary plain_lib OpenAIService_init ?a) = Inr paris_three_days"
    "delays (snd (generate_itinerary plain_lib OpenAIService_init ?a)) = [1, 2]"
    by blast+
  from m(2) r(2) have "length [0 ..< m] = 2" by (metis length_map length_Cons list.size(3) Suc_1 One_nat_def)
  then have "m = 2" by simp
  with m(1) have "snd (generate_itinerary plain_lib OpenAIService_init ?a)
      = [Post 0, Sleep 1, Post 1, Sleep 2, Post 2]"
    by (simp add: retried_def OpenAIService_init_def upt_rec)
  with r show ?thesis by simp
qed








section \<open>Properties of the request router\<close>

text \<open>A status query for an id that is not in the store, the store being reachable or not,
  is answered with status 500.\<close>

lemma get_job_status_not_found_is_500:
  "coll job_id = None \<Longrightarrow> status_code (get_job_status lib up coll job_id) = 500"
  by (simp add: get_job_status_def get_job_status_try_def get_document_def find_one_def)

text \<open>
  Claim C4. The handler raises \<^verbatim>\<open>HTTPException(status_code=404)\<close> inside its own
  \<^verbatim>\<open>try\<close> block, whose handler \<^verbatim>\<open>except Exception\<close> catches it and raises status 500:
  for the id \<open>job-2\<close>, absent from a store that holds only \<open>job-1\<close>, the reply is 500
  and carries the 404 in its detail.
\<close>

theorem get_job_status_unknown_id:
  "get_job_status plain_lib True one_job ''job-2''
     = Inl (HTTPException 500 ''Failed to retrieve job status: ''
             (Some (HTTPException 404 ''Job ID not found'' None)))
   \<and> status_code (get_job_status plain_lib True one_job ''job-2'') = 500"
  by (simp add: get_job_status_def get_job_status_try_def get_document_def find_one_def
      one_job_def post_generate_itinerary_def new_TravelRequest_def create_document_def
      insert_one_def initial_data_dict_def)

text \<open>
  Claim C5, as the code has it. A request whose \<^verbatim>\<open>durationDays\<close> is below 1 or above 30
  is answered with a client error, the collection is unchanged and no background task
  is added; a request that is accepted has \<^verbatim>\<open>durationDays\<close> within 1 and 30. Nothing is
  asked of the destination but to be a string.
\<close>

theorem post_generate_itinerary_duration_checked:
  "(days < 1 \<or> 30 < days
      \<longrightarrow> post_generate_itinerary lib up utcnow job_id dest days coll = (ClientError 422, coll, []))
   \<and> (fst (post_generate_itinerary lib up utcnow job_id dest days coll) = Accepted j
      \<longrightarrow> 1 \<le> days \<and> days \<le> 30)"
  by (auto simp: post_generate_itinerary_def new_TravelRequest_def split: sum.splits)

text \<open>The theorem at durations 0 and 31, rejected, and 3, accepted.\<close>

theorem post_generate_itinerary_duration_checked_witness:
  "post_generate_itinerary plain_lib True noon ''job-1'' ''Paris, France'' 0 Map.empty
     = (ClientError 422, Map.empty, [])
   \<and> post_generate_itinerary plain_lib True noon ''job-1'' ''Paris, France'' 31 Map.empty
     = (ClientError 422, Map.empty, [])
   \<and> fst (post_generate_itinerary plain_lib True noon ''job-1'' ''Paris, France'' 3 Map.empty)
     = Accepted ''job-1''"
proof -
  have "fst (post_generate_itinerary plain_lib True noon ''job-1'' ''Paris, France'' 3 Map.empty)
     = Accepted ''job-1''"
    by (simp add: post_generate_itinerary_def new_TravelRequest_def create_document_def
        insert_one_def initial_data_dict_def)
  moreover from post_generate_itinerary_duration_checked [of 3 plain_lib True noon "''job-1''" "''Paris, France''" Map.empty "''job-1''"]
  have "fst (post_generate_itinerary plain_lib True noon ''job-1'' ''Paris, France'' 3 Map.empty)
     = Accepted ''job-1'' \<longrightarrow> (1::int) \<le> 3 \<and> (3::int) \<le> 30" by blast
  ultimately show ?thesis
    using post_generate_itinerary_duration_checked [of 0 plain_lib True noon "''job-1''" "''Paris, France''" Map.empty]
      post_generate_itinerary_duration_checked [of 31 plain_lib True noon "''job-1''" "''Paris, France''" Map.empty]
    by simp
qed

text \<open>
  Claim C5 as stated fails: a request with the empty destination and duration 3 is
  accepted, and its record is stored with status \<^verbatim>\<open>processing\<close>.
\<close>

theorem post_generate_itinerary_empty_destination_counterexample:
  "fst (post_generate_itinerary plain_lib True noon ''job-1'' [] 3 Map.empty) = Accepted ''job-1''
   \<and> map_option (\<lambda>doc. (map_of doc ''status'', map_of doc ''destination''))
        (fst (snd (post_generate_itinerary plain_lib True noon ''job-1'' [] 3 Map.empty)) ''job-1'')
     = Some (Some (PStr ''processing''), Some (PStr []))"
  by (simp add: post_generate_itinerary_def new_TravelRequest_def create_document_def
      insert_one_def initial_data_dict_def)

section \<open>Properties of the document store adapter\<close>

lemma map_of_dict_set: "map_of (dict_set key v d) = (map_of d)(key \<mapsto> v)"
  by (induction d) (auto simp: fun_eq_iff)


lemma map_of_set_fields:
  "map_of (set_fields doc updates) = map_of doc ++ map_of (rev updates)"
proof (induction updates arbitrary: doc)
  case Nil
  then show ?case by (simp add: set_fields_def)
next
  case (Cons u us)
  obtain k v where u: "u = (k, v)" by (cases u)
  have "set_fields doc (u # us) = set_fields (dict_set k v doc) us"
    by (simp add: set_fields_def u)
  then show ?case
    using Cons.IH [of "dict_set k v doc"]
    by (simp add: u map_of_dict_set map_add_def fun_eq_iff split: option.splits)
qed




lemma mark_as_failed_result:
  "mark_as_failed lib up utcnow coll document_id error_message =
     (if \<not> up then Inl PyMongoError
      else case coll document_id of
        None \<Rightarrow> Inr coll
      | Some doc \<Rightarrow> Inr (coll(document_id \<mapsto>
          set_fields doc [(''status'', PStr ''failed''),
                          (''completedAt'', PStr (isoformat lib utcnow)),
                          (''error'', PStr error_message)])))"
  by (simp add: mark_as_failed_def update_document_def update_one_def split: option.splits)

text \<open>
  Claim C9. When \<^verbatim>\<open>mark_as_failed\<close> returns and the record exists, the record then has
  status \<^verbatim>\<open>failed\<close>, the time of the write as \<^verbatim>\<open>completedAt\<close> and the message as
  \<^verbatim>\<open>error\<close>; every other field of it, \<^verbatim>\<open>destination\<close>, \<^verbatim>\<open>durationDays\<close>,
  \<^verbatim>\<open>createdAt\<close>, \<^verbatim>\<open>jobId\<close> and \<^verbatim>\<open>itinerary\<close> among them, is as before. No other record
  changes, and nothing changes when the record does not exist.
\<close>

theorem mark_as_failed_frame:
  "(mark_as_failed lib up utcnow coll document_id error_message = Inr coll'
      \<and> coll document_id = Some doc
     \<longrightarrow> (\<exists>doc'. coll' document_id = Some doc'
           \<and> map_of doc' ''status'' = Some (PStr ''failed'')
           \<and> map_of doc' ''completedAt'' = Some (PStr (isoformat lib utcnow))
           \<and> map_of doc' ''error'' = Some (PStr error_message)
           \<and> (\<forall>key. key \<notin> {''status'', ''completedAt'', ''error''}
                \<longrightarrow> map_of doc' key = map_of doc key)
           \<and> map_of doc' ''destination'' = map_of doc ''destination''
           \<and> map_of doc' ''durationDays'' = map_of doc ''durationDays''
           \<and> map_of doc' ''createdAt'' = map_of doc ''createdAt''
           \<and> map_of doc' ''jobId'' = map_of doc ''jobId''
           \<and> map_of doc' ''itinerary'' = map_of doc ''itinerary''))
   \<and> (mark_as_failed lib up utcnow coll document_id error_message = Inr coll'
     \<longrightarrow> (\<forall>other. other \<noteq> document_id \<longrightarrow> coll' other = coll other)
         \<and> (coll document_id = None \<longrightarrow> coll' = coll))"
  by (auto simp: mark_as_failed_result map_of_set_fields split: if_splits option.splits)

text \<open>The theorem on the record of job \<open>job-1\<close>.\<close>

theorem mark_as_failed_frame_witness:
  "map_option (\<lambda>doc. map (map_of doc)
       [''status'', ''error'', ''destination'', ''durationDays'', ''createdAt'', ''jobId'', ''itinerary''])
     (case mark_as_failed plain_lib True half_past_noon one_job ''job-1'' ''no luck'' of
        Inr coll' \<Rightarrow> coll' ''job-1'' | Inl e \<Rightarrow> None)
   = Some [Some (PStr ''failed''), Some (PStr ''no luck''), Some (PStr ''Paris, France''),
           Some (PInt 3), Some (PStr ''2024-05-01T12:00:00''), Some (PStr ''job-1''),
           Some (PList [])]"
proof -
  let ?doc = "[(''status'', PStr ''processing''),
   (''destination'', PStr ''Paris, France''), (''durationDays'', PInt 3),
   (''createdAt'', PStr ''2024-05-01T12:00:00''), (''completedAt'', PNone),
   (''itinerary'', PList []), (''error'', PNone), (''_id'', PStr ''job-1''),
   (''jobId'', PStr ''job-1'')]"
  have j: "one_job ''job-1'' = Some ?doc"
    by (simp add: one_job_def post_generate_itinerary_def new_TravelRequest_def
        create_document_def insert_one_def initial_data_dict_def plain_lib_def)
  obtain coll' where c: "mark_as_failed plain_lib True half_past_noon one_job ''job-1'' ''no luck'' = Inr coll'"
    using j by (simp add: mark_as_failed_result)
  from mark_as_failed_frame [of plain_lib True half_past_noon one_job "''job-1''" "''no luck''" coll' ?doc] c j
  obtain doc' where d: "coll' ''job-1'' = Some doc'"
    "map_of doc' ''status'' = Some (PStr ''failed'')"
    "map_of doc' ''error'' = Some (PStr ''no luck'')"
    "map_of doc' ''destination'' = map_of ?doc ''destination''"
    "map_of doc' ''durationDays'' = map_of ?doc ''durationDays''"
    "map_of doc' ''createdAt'' = map_of ?doc ''createdAt''"
    "map_of doc' ''jobId'' = map_of ?doc ''jobId''"
    "map_of doc' ''itinerary'' = map_of ?doc ''itinerary''"
    by blast
  show ?thesis using c d by simp
qed




section \<open>Properties of the job orchestrator\<close>

lemma mark_as_completed_result:
  "mark_as_completed lib up utcnow coll document_id itinerary =
     (if \<not> up then Inl PyMongoError
      else case coll document_id of
        None \<Rightarrow> Inr coll
      | Some doc \<Rightarrow> Inr (coll(document_id \<mapsto>
          set_fields doc (prepare_data_for_mongodb lib
            [(''status'', PStr ''completed''),
             (''completedAt'', PDatetime utcnow),
             (''itinerary'', PList (map DayItinerary_dict itinerary)),
             (''error'', PNone)]))))"
  by (simp add: mark_as_completed_def update_document_def update_one_def Let_def
      del: prepare_data_for_mongodb.simps split: option.splits)

text \<open>The six ways a run can go.\<close>

lemma run_when_valid_and_up:
  "generated_and_valid lib openai w n \<Longrightarrow> up_at_completed w \<Longrightarrow>
     \<exists>itinerary. validate_itinerary itinerary n = Inr ()
       \<and> generate_and_save_itinerary lib openai w coll job_id dest n =
        (case mark_as_completed lib True (utcnow_at_completed w) coll job_id itinerary of
           Inr coll' \<Rightarrow> coll' | Inl e \<Rightarrow> coll, [MarkAsCompleted True])"
  by (auto simp: generated_and_valid_def generate_and_save_itinerary_def run_try_def
      mark_as_completed_result split: sum.splits option.splits)

lemma run_when_valid_and_down:
  "generated_and_valid lib openai w n \<Longrightarrow> \<not> up_at_completed w \<Longrightarrow>
     generate_and_save_itinerary lib openai w coll job_id dest n =
       (case mark_as_failed lib (up_at_failed w) (utcnow_at_failed w) coll job_id
               (''Failed to generate itinerary: '' @ str_exn lib PyMongoError) of
          Inr coll' \<Rightarrow> (coll', [MarkAsCompleted False, LogError PyMongoError, MarkAsFailed True])
        | Inl e \<Rightarrow> (coll, [MarkAsCompleted False, LogError PyMongoError, MarkAsFailed False,
                          LogErrorUpdate e]))"
  by (auto simp: generated_and_valid_def generate_and_save_itinerary_def run_try_def
      mark_as_completed_result Let_def split: sum.splits option.splits)

lemma run_when_not_valid:
  assumes "\<not> generated_and_valid lib openai w n"
  shows "\<exists>e. generate_and_save_itinerary lib openai w coll job_id dest n =
       (case mark_as_failed lib (up_at_failed w) (utcnow_at_failed w) coll job_id
               (''Failed to generate itinerary: '' @ str_exn lib e) of
          Inr coll' \<Rightarrow> (coll', [LogError e, MarkAsFailed True])
        | Inl e' \<Rightarrow> (coll, [LogError e, MarkAsFailed False, LogErrorUpdate e']))"
proof (cases "fst (generate_itinerary lib openai (provider_responses w))")
  case (Inl e)
  then show ?thesis
    by (intro exI [of _ e])
       (simp add: generate_and_save_itinerary_def run_try_def Let_def split: sum.splits)
next
  case (Inr itinerary)
  with assms obtain e where "validate_itinerary itinerary n = Inl e"
    by (cases "validate_itinerary itinerary n") (auto simp: generated_and_valid_def)
  with Inr show ?thesis
    by (intro exI [of _ e])
       (simp add: generate_and_save_itinerary_def run_try_def Let_def split: sum.splits)
qed

lemma mark_as_failed_cases:
  "(up \<and> (\<exists>coll'. mark_as_failed lib up t coll job_id m = Inr coll'))
   \<or> (\<not> up \<and> mark_as_failed lib up t coll job_id m = Inl PyMongoError)"
  by (auto simp: mark_as_failed_result split: option.splits)

text \<open>
  Claim C1, as the code has it. The background task calls \<^verbatim>\<open>mark_as_completed\<close> at
  most once and \<^verbatim>\<open>mark_as_failed\<close> at most once, and at most one of the two calls
  returns. Its terminal writes are one of: \<^verbatim>\<open>mark_as_completed\<close> alone, which returned
  (exactly when generation and validation succeeded and the store was reachable); a
  \<^verbatim>\<open>mark_as_completed\<close> that raised followed by one \<^verbatim>\<open>mark_as_failed\<close> (exactly when
  generation and validation succeeded and the store was unreachable for the first
  write); \<^verbatim>\<open>mark_as_failed\<close> alone. A \<^verbatim>\<open>mark_as_failed\<close> that raises is the last write
  attempt: the store is left as it was and the failure is logged.
\<close>

theorem generate_and_save_itinerary_terminal_writes:
  "(terminal_writes (snd (generate_and_save_itinerary lib openai w coll job_id dest n))
       = [MarkAsCompleted True]
     \<or> terminal_writes (snd (generate_and_save_itinerary lib openai w coll job_id dest n))
       = [MarkAsCompleted False, MarkAsFailed (up_at_failed w)]
     \<or> terminal_writes (snd (generate_and_save_itinerary lib openai w coll job_id dest n))
       = [MarkAsFailed (up_at_failed w)])
   \<and> ((terminal_writes (snd (generate_and_save_itinerary lib openai w coll job_id dest n))
         = [MarkAsCompleted True])
       = (generated_and_valid lib openai w n \<and> up_at_completed w))
   \<and> ((terminal_writes (snd (generate_and_save_itinerary lib openai w coll job_id dest n))
         = [MarkAsCompleted False, MarkAsFailed (up_at_failed w)])
       = (generated_and_valid lib openai w n \<and> \<not> up_at_completed w))
   \<and> (MarkAsFailed False \<in> set (snd (generate_and_save_itinerary lib openai w coll job_id dest n))
       \<longrightarrow> fst (generate_and_save_itinerary lib openai w coll job_id dest n) = coll
         \<and> (\<exists>events e. snd (generate_and_save_itinerary lib openai w coll job_id dest n)
               = events @ [MarkAsFailed False, LogErrorUpdate e]
             \<and> MarkAsFailed False \<notin> set events \<and> MarkAsFailed True \<notin> set events))"
proof (cases "generated_and_valid lib openai w n")
  case True
  show ?thesis
  proof (cases "up_at_completed w")
    case up: True
    from run_when_valid_and_up [OF True up, of coll job_id dest]
    obtain c where "generate_and_save_itinerary lib openai w coll job_id dest n = (c, [MarkAsCompleted True])"
      by auto
    with True up show ?thesis by (simp add: terminal_writes_def)
  next
    case down: False
    note r = run_when_valid_and_down [OF True down, of coll job_id dest]
    from mark_as_failed_cases [of "up_at_failed w" lib "utcnow_at_failed w" coll job_id
        "''Failed to generate itinerary: '' @ str_exn lib PyMongoError"]
    show ?thesis
    proof (elim disjE conjE exE)
      fix coll' assume "up_at_failed w"
        "mark_as_failed lib (up_at_failed w) (utcnow_at_failed w) coll job_id
          (''Failed to generate itinerary: '' @ str_exn lib PyMongoError) = Inr coll'"
      with r True down show ?thesis by (simp add: terminal_writes_def)
    next
      assume f: "\<not> up_at_failed w"
        "mark_as_failed lib (up_at_failed w) (utcnow_at_failed w) coll job_id
          (''Failed to generate itinerary: '' @ str_exn lib PyMongoError) = Inl PyMongoError"
      with r have g: "generate_and_save_itinerary lib openai w coll job_id dest n
          = (coll, [MarkAsCompleted False, LogError PyMongoError] @ [MarkAsFailed False, LogErrorUpdate PyMongoError])"
        by simp
      have "\<exists>events e. snd (generate_and_save_itinerary lib openai w coll job_id dest n)
               = events @ [MarkAsFailed False, LogErrorUpdate e]
             \<and> MarkAsFailed False \<notin> set events \<and> MarkAsFailed True \<notin> set events"
        by (rule exI [of _ "[MarkAsCompleted False, LogError PyMongoError]"],
            rule exI [of _ PyMongoError]) (simp add: g)
      with g f True down show ?thesis by (simp add: terminal_writes_def)
    qed
  qed
next
  case False
  from run_when_not_valid [OF False, of coll job_id dest]
  obtain e where r: "generate_and_save_itinerary lib openai w coll job_id dest n =
       (case mark_as_failed lib (up_at_failed w) (utcnow_at_failed w) coll job_id
               (''Failed to generate itinerary: '' @ str_exn lib e) of
          Inr coll' \<Rightarrow> (coll', [LogError e, MarkAsFailed True])
        | Inl e' \<Rightarrow> (coll, [LogError e, MarkAsFailed False, LogErrorUpdate e']))" by blast
  from mark_as_failed_cases [of "up_at_failed w" lib "utcnow_at_failed w" coll job_id
        "''Failed to generate itinerary: '' @ str_exn lib e"]
  show ?thesis
  proof (elim disjE conjE exE)
    fix coll' assume "up_at_failed w"
      "mark_as_failed lib (up_at_failed w) (utcnow_at_failed w) coll job_id
        (''Failed to generate itinerary: '' @ str_exn lib e) = Inr coll'"
    with r False show ?thesis by (simp add: terminal_writes_def)
  next
    assume f: "\<not> up_at_failed w"
      "mark_as_failed lib (up_at_failed w) (utcnow_at_failed w) coll job_id
        (''Failed to generate itinerary: '' @ str_exn lib e) = Inl PyMongoError"
    with r have g: "generate_and_save_itinerary lib openai w coll job_id dest n
        = (coll, [LogError e] @ [MarkAsFailed False, LogErrorUpdate PyMongoError])"
      by simp
    have "\<exists>events e. snd (generate_and_save_itinerary lib openai w coll job_id dest n)
             = events @ [MarkAsFailed False, LogErrorUpdate e]
           \<and> MarkAsFailed False \<notin> set events \<and> MarkAsFailed True \<notin> set events"
      by (rule exI [of _ "[LogError e]"], rule exI [of _ PyMongoError]) (simp add: g)
    with g f False show ?thesis by (simp add: terminal_writes_def)
  qed
qed

text \<open>Evaluations on the concrete inputs.\<close>

lemma one_job_record:
  "one_job ''job-1'' = Some
     [(''status'', PStr ''processing''), (''destination'', PStr ''Paris, France''),
      (''durationDays'', PInt 3), (''createdAt'', PStr ''2024-05-01T12:00:00''),
      (''completedAt'', PNone), (''itinerary'', PList []), (''error'', PNone),
      (''_id'', PStr ''job-1''), (''jobId'', PStr ''job-1'')]"
  by (simp add: one_job_def post_generate_itinerary_def new_TravelRequest_def
      create_document_def insert_one_def initial_data_dict_def plain_lib_def)

lemma validate_paris: "validate_itinerary paris_three_days 3 = Inr ()"
  by (simp add: validate_itinerary_def paris_three_days_def three_activities_def
      validate_day_def blank_def py_strip_def py_isspace_def required_times_def)

lemma generate_paris:
  "generate_itinerary plain_lib OpenAIService_init (answers [Response (completion ''paris'')])
     = (Inr paris_three_days, [Post 0])"
  using generate_itinerary_200_after_retries
    [of 0 OpenAIService_init "answers [Response (completion ''paris'')]" "completion ''paris''" plain_lib]
  by (simp add: OpenAIService_init_def answers_def completion_paris retried_def)
     (simp add: completion_def)

lemma generate_server_error:
  "generate_itinerary plain_lib OpenAIService_init (answers [Response server_error])
     = (Inl (OpenAIAPIError 500 ''internal error''), [Post 0])"
  using generate_loop_Raise [of 0 OpenAIService_init plain_lib "answers [Response server_error]"
      "OpenAIAPIError 500 ''internal error''" "[]"]
  by (simp add: generate_itinerary_def OpenAIService_init_def answers_def server_error_def
      loop_body_def try_block_def)

text \<open>
  The theorem on three runs for job \<open>job-1\<close>: the store unreachable for the first write
  only, the store reachable, and the store unreachable after a failed generation.
\<close>

theorem generate_and_save_itinerary_terminal_writes_witness:
  "terminal_writes (snd (generate_and_save_itinerary plain_lib OpenAIService_init
       store_down_then_up one_job ''job-1'' ''Paris, France'' 3))
     = [MarkAsCompleted False, MarkAsFailed True]
   \<and> terminal_writes (snd (generate_and_save_itinerary plain_lib OpenAIService_init
       store_up one_job ''job-1'' ''Paris, France'' 3))
     = [MarkAsCompleted True]
   \<and> fst (generate_and_save_itinerary plain_lib OpenAIService_init
       store_down one_job ''job-1'' ''Paris, France'' 3) = one_job"
proof -
  have v1: "generated_and_valid plain_lib OpenAIService_init store_down_then_up 3"
    and v2: "generated_and_valid plain_lib OpenAIService_init store_up 3"
    by (simp_all add: generated_and_valid_def store_down_then_up_def store_up_def
        generate_paris validate_paris)
  have u1: "\<not> up_at_completed store_down_then_up" "up_at_failed store_down_then_up"
    and u2: "up_at_completed store_up"
    by (simp_all add: store_down_then_up_def store_up_def)
  have d: "MarkAsFailed False \<in> set (snd (generate_and_save_itinerary plain_lib OpenAIService_init
       store_down one_job ''job-1'' ''Paris, France'' 3))"
    by (simp add: generate_and_save_itinerary_def run_try_def store_down_def
        generate_server_error mark_as_failed_result)
  note t = generate_and_save_itinerary_terminal_writes
    [of plain_lib OpenAIService_init _ one_job "''job-1''" "''Paris, France''" 3]
  from t [of store_down_then_up] v1 u1
  have 1: "terminal_writes (snd (generate_and_save_itinerary plain_lib OpenAIService_init
       store_down_then_up one_job ''job-1'' ''Paris, France'' 3))
     = [MarkAsCompleted False, MarkAsFailed True]" by simp
  from t [of store_up] v2 u2
  have 2: "terminal_writes (snd (generate_and_save_itinerary plain_lib OpenAIService_init
       store_up one_job ''job-1'' ''Paris, France'' 3)) = [MarkAsCompleted True]" by simp
  from t [of store_down] d
  have 3: "fst (generate_and_save_itinerary plain_lib OpenAIService_init
       store_down one_job ''job-1'' ''Paris, France'' 3) = one_job" by blast
  from 1 2 3 show ?thesis by blast
qed

text \<open>
  Claim C1 as stated fails: when \<^verbatim>\<open>mark_as_completed\<close> raises, the handler
  \<^verbatim>\<open>except Exception\<close> of the task calls \<^verbatim>\<open>mark_as_failed\<close>, a second terminal write
  attempt for the same job; here it returns and the job, whose itinerary was generated
  and valid, ends with status \<^verbatim>\<open>failed\<close>.
\<close>

theorem generate_and_save_itinerary_second_write_counterexample:
  "snd (generate_and_save_itinerary plain_lib OpenAIService_init
       store_down_then_up one_job ''job-1'' ''Paris, France'' 3)
     = [MarkAsCompleted False, LogError PyMongoError, MarkAsFailed True]
   \<and> (case fst (generate_and_save_itinerary plain_lib OpenAIService_init
         store_down_then_up one_job ''job-1'' ''Paris, France'' 3) ''job-1'' of
        Some doc \<Rightarrow> map_of doc ''status'' | None \<Rightarrow> None) = Some (PStr ''failed'')"
  by (simp add: generate_and_save_itinerary_def run_try_def store_down_then_up_def
      generate_paris validate_paris mark_as_failed_result mark_as_completed_result
      one_job_record set_fields_def)

text \<open>A validated itinerary has the expected length and the day values 1, 2, ... in
  order, and its stored form is what \<^verbatim>\<open>item.dict()\<close> gives.\<close>

lemma validate_day_number: "validate_day i d = Inr () \<Longrightarrow> day d = i"
  by (auto simp: validate_day_def split: if_splits)

lemma validate_days_numbers:
  "validate_days (int k) ds = Inr () \<Longrightarrow> map day ds = map int [k ..< k + length ds]"
proof (induction ds arbitrary: k)
  case Nil
  then show ?case by simp
next
  case (Cons d ds)
  from Cons.prems have d: "validate_day (int k) d = Inr ()"
    and r: "validate_days (int (Suc k)) ds = Inr ()"
    by (auto split: sum.splits simp: add.commute)
  from Cons.IH [OF r] validate_day_number [OF d]
  show ?case by (simp add: upt_conv_Cons del: upt_Suc)
qed

lemma validate_itinerary_days:
  "validate_itinerary itinerary n = Inr ()
    \<Longrightarrow> int (length itinerary) = n \<and> 0 < n
      \<and> map day itinerary = map int [1 ..< Suc (length itinerary)]"
  using validate_days_numbers [of 1 itinerary]
  by (auto simp: validate_itinerary_def split: if_splits)

lemma prepare_activities:
  "prepare_items lib (map Activity_dict as) = map Activity_dict as"
  by (induction as) (simp_all add: Activity_dict_def)

lemma prepare_days:
  "prepare_items lib (map DayItinerary_dict ds) = map DayItinerary_dict ds"
  by (induction ds) (simp_all add: DayItinerary_dict_def prepare_activities)

lemma day_values_of_days:
  "(\<lambda>x. case x of PDict d \<Rightarrow> map_of d ''day'' | _ \<Rightarrow> None) \<circ> DayItinerary_dict
     = (\<lambda>d. Some (PInt (day d)))"
  by (simp add: fun_eq_iff DayItinerary_dict_def)

lemma created_record:
  "post_generate_itinerary lib up utcnow job_id dest days coll = (Accepted j, coll1, tasks)
    \<Longrightarrow> 1 \<le> days \<and> tasks = [(job_id, dest, days)]
      \<and> coll1 job_id = Some
          [(''status'', PStr ''processing''), (''destination'', PStr dest),
           (''durationDays'', PInt days), (''createdAt'', PStr (isoformat lib utcnow)),
           (''completedAt'', PNone), (''itinerary'', PList []), (''error'', PNone),
           (''_id'', PStr job_id), (''jobId'', PStr job_id)]"
  by (auto simp: post_generate_itinerary_def new_TravelRequest_def create_document_def
      insert_one_def initial_data_dict_def Let_def split: sum.splits if_splits)

lemma invariant_processing:
  "1 \<le> days \<Longrightarrow> job_invariant
      [(''status'', PStr ''processing''), (''destination'', PStr dest),
       (''durationDays'', PInt days), (''createdAt'', c),
       (''completedAt'', PNone), (''itinerary'', PList []), (''error'', PNone),
       (''_id'', PStr job_id), (''jobId'', PStr job_id)]"
  by (simp add: job_invariant_def itinerary_of_def is_completed_def)

lemma invariant_failed:
  assumes "1 \<le> days"
  shows "job_invariant (set_fields
      [(''status'', PStr ''processing''), (''destination'', PStr dest),
       (''durationDays'', PInt days), (''createdAt'', c),
       (''completedAt'', PNone), (''itinerary'', PList []), (''error'', PNone),
       (''_id'', PStr job_id), (''jobId'', PStr job_id)]
      [(''status'', PStr ''failed''), (''completedAt'', a), (''error'', PStr m)])"
  using assms by (simp add: job_invariant_def itinerary_of_def is_completed_def set_fields_def)

lemma invariant_completed:
  assumes "validate_itinerary itinerary days = Inr ()"
  shows "job_invariant (set_fields
      [(''status'', PStr ''processing''), (''destination'', PStr dest),
       (''durationDays'', PInt days), (''createdAt'', c),
       (''completedAt'', PNone), (''itinerary'', PList []), (''error'', PNone),
       (''_id'', PStr job_id), (''jobId'', PStr job_id)]
      (prepare_data_for_mongodb lib
        [(''status'', PStr ''completed''), (''completedAt'', PDatetime t),
         (''itinerary'', PList (map DayItinerary_dict itinerary)), (''error'', PNone)]))"
proof -
  from validate_itinerary_days [OF assms]
  have n: "int (length itinerary) = days"
    and m: "map day itinerary = map int [1 ..< Suc (length itinerary)]" by auto
  from n have nn: "nat days = length itinerary" by auto
  have "map (\<lambda>d. Some (PInt (day d))) itinerary
      = map (\<lambda>i. Some (PInt i)) (map day itinerary)" by simp
  also have "\<dots> = map (\<lambda>i. Some (PInt (int i))) [1 ..< Suc (length itinerary)]"
    by (simp only: m map_map comp_def)
  finally have dv: "map (\<lambda>d. Some (PInt (day d))) itinerary
      = map (\<lambda>i. Some (PInt (int i))) [1 ..< Suc (length itinerary)]" .
  show ?thesis
    using n dv
    by (simp add: job_invariant_def itinerary_of_def is_completed_def set_fields_def
        day_values_def prepare_days day_values_of_days nn del: upt_Suc)
qed

lemma failed_path_invariant:
  assumes "1 \<le> days"
    and "coll1 job_id = Some
          [(''status'', PStr ''processing''), (''destination'', PStr dest),
           (''durationDays'', PInt days), (''createdAt'', c),
           (''completedAt'', PNone), (''itinerary'', PList []), (''error'', PNone),
           (''_id'', PStr job_id), (''jobId'', PStr job_id)]"
  shows "\<exists>doc. fst (case mark_as_failed lib up t coll1 job_id m of
                       Inr coll' \<Rightarrow> (coll', ev1) | Inl e' \<Rightarrow> (coll1, ev2 e')) job_id = Some doc
               \<and> job_invariant doc"
  using assms invariant_failed [OF assms(1)] invariant_processing [OF assms(1)]
  by (simp add: mark_as_failed_result)

text \<open>
  Claim C8. When the endpoint accepts a request, it schedules one task with the id,
  destination and duration of the request, and the record it stored satisfies the
  invariant and is not completed. After the background task has run on that record,
  whatever the provider answers and whether or not the store is reachable for its
  writes, the record satisfies the invariant: the length of its itinerary equals
  \<^verbatim>\<open>durationDays\<close> exactly when its status is \<^verbatim>\<open>completed\<close>, and the day values of a
  completed record are 1, ..., \<^verbatim>\<open>durationDays\<close> in order.
\<close>

theorem job_invariant_reachable:
  "post_generate_itinerary lib up utcnow job_id dest days coll = (Accepted j, coll1, tasks)
   \<longrightarrow> tasks = [(job_id, dest, days)]
     \<and> (\<exists>doc. coll1 job_id = Some doc \<and> job_invariant doc \<and> \<not> is_completed doc)
     \<and> (\<exists>doc. fst (generate_and_save_itinerary lib openai w coll1 job_id dest days) job_id = Some doc
           \<and> job_invariant doc)"
proof
  assume a: "post_generate_itinerary lib up utcnow job_id dest days coll = (Accepted j, coll1, tasks)"
  let ?doc = "[(''status'', PStr ''processing''), (''destination'', PStr dest),
           (''durationDays'', PInt days), (''createdAt'', PStr (isoformat lib utcnow)),
           (''completedAt'', PNone), (''itinerary'', PList []), (''error'', PNone),
           (''_id'', PStr job_id), (''jobId'', PStr job_id)]"
  from created_record [OF a]
  have d: "1 \<le> days" and t: "tasks = [(job_id, dest, days)]" and c: "coll1 job_id = Some ?doc"
    by blast+
  have i0: "job_invariant ?doc" by (rule invariant_processing [OF d])
  have n0: "\<not> is_completed ?doc" by (simp add: is_completed_def)
  have run: "\<exists>doc. fst (generate_and_save_itinerary lib openai w coll1 job_id dest days) job_id = Some doc
           \<and> job_invariant doc"
  proof (cases "generated_and_valid lib openai w days")
    case True
    show ?thesis
    proof (cases "up_at_completed w")
      case up: True
      from run_when_valid_and_up [OF True up, of coll1 job_id dest]
      obtain itinerary where v: "validate_itinerary itinerary days = Inr ()"
        and r: "generate_and_save_itinerary lib openai w coll1 job_id dest days =
        (case mark_as_completed lib True (utcnow_at_completed w) coll1 job_id itinerary of
           Inr coll' \<Rightarrow> coll' | Inl e \<Rightarrow> coll1, [MarkAsCompleted True])" by blast
      show ?thesis
        using r c invariant_completed [OF v]
        by (simp add: mark_as_completed_result del: prepare_data_for_mongodb.simps)
    next
      case down: False
      from failed_path_invariant [where ?coll1.0 = coll1 and job_id = job_id, OF d c]
        run_when_valid_and_down [OF True down, of coll1 job_id dest]
      show ?thesis by simp
    qed
  next
    case False
    from run_when_not_valid [OF False, of coll1 job_id dest]
    obtain e where r: "generate_and_save_itinerary lib openai w coll1 job_id dest days =
       (case mark_as_failed lib (up_at_failed w) (utcnow_at_failed w) coll1 job_id
               (''Failed to generate itinerary: '' @ str_exn lib e) of
          Inr coll' \<Rightarrow> (coll', [LogError e, MarkAsFailed True])
        | Inl e' \<Rightarrow> (coll1, [LogError e, MarkAsFailed False, LogErrorUpdate e']))" by blast
    from failed_path_invariant [where ?coll1.0 = coll1 and job_id = job_id, OF d c] r
    show ?thesis by simp
  qed
  from t c i0 n0 run
  show "tasks = [(job_id, dest, days)]
     \<and> (\<exists>doc. coll1 job_id = Some doc \<and> job_invariant doc \<and> \<not> is_completed doc)
     \<and> (\<exists>doc. fst (generate_and_save_itinerary lib openai w coll1 job_id dest days) job_id = Some doc
           \<and> job_invariant doc)"
    by blast
qed

text \<open>
  The theorem on job \<open>job-1\<close>: as created, after a run that completes it, and after a
  run that marks it failed.
\<close>

theorem job_invariant_reachable_witness:
  "(case one_job ''job-1'' of Some doc \<Rightarrow> job_invariant doc \<and> \<not> is_completed doc | None \<Rightarrow> False)
   \<and> (case fst (generate_and_save_itinerary plain_lib OpenAIService_init store_up one_job
              ''job-1'' ''Paris, France'' 3) ''job-1'' of
        Some doc \<Rightarrow> job_invariant doc \<and> is_completed doc | None \<Rightarrow> False)
   \<and> (case fst (generate_and_save_itinerary plain_lib OpenAIService_init store_down_then_up one_job
              ''job-1'' ''Paris, France'' 3) ''job-1'' of
        Some doc \<Rightarrow> job_invariant doc \<and> \<not> is_completed doc | None \<Rightarrow> False)"
proof -
  have p: "post_generate_itinerary plain_lib True noon ''job-1'' ''Paris, France'' 3 Map.empty
      = (Accepted ''job-1'', one_job, [(''job-1'', ''Paris, France'', 3)])"
    by (simp add: one_job_def post_generate_itinerary_def new_TravelRequest_def
        create_document_def insert_one_def initial_data_dict_def)
  note t = job_invariant_reachable [of plain_lib True noon "''job-1''" "''Paris, France''" 3
      Map.empty "''job-1''" one_job "[(''job-1'', ''Paris, France'', 3)]" OpenAIService_init]
  have c1: "case fst (generate_and_save_itinerary plain_lib OpenAIService_init store_up one_job
              ''job-1'' ''Paris, France'' 3) ''job-1'' of
        Some doc \<Rightarrow> is_completed doc | None \<Rightarrow> False"
    by (simp add: generate_and_save_itinerary_def run_try_def store_up_def
      generate_paris validate_paris mark_as_completed_result
      one_job_record set_fields_def is_completed_def)
  have c2: "case fst (generate_and_save_itinerary plain_lib OpenAIService_init store_down_then_up one_job
              ''job-1'' ''Paris, France'' 3) ''job-1'' of
        Some doc \<Rightarrow> \<not> is_completed doc | None \<Rightarrow> False"
    by (simp add: generate_and_save_itinerary_def run_try_def store_down_then_up_def
      generate_paris validate_paris mark_as_failed_result mark_as_completed_result
      one_job_record set_fields_def is_completed_def)
  from t [of store_up] p c1 have 1: "case fst (generate_and_save_itinerary plain_lib OpenAIService_init store_up one_job
              ''job-1'' ''Paris, France'' 3) ''job-1'' of
        Some doc \<Rightarrow> job_invariant doc \<and> is_completed doc | None \<Rightarrow> False"
    by (auto split: option.splits)
  from t [of store_down_then_up] p c2 have 2: "case fst (generate_and_save_itinerary plain_lib OpenAIService_init store_down_then_up one_job
              ''job-1'' ''Paris, France'' 3) ''job-1'' of
        Some doc \<Rightarrow> job_invariant doc \<and> \<not> is_completed doc | None \<Rightarrow> False"
    by (auto split: option.splits)
  from t [of store_up] p have 0: "case one_job ''job-1'' of Some doc \<Rightarrow> job_invariant doc \<and> \<not> is_completed doc | None \<Rightarrow> False"
    by (auto split: option.splits)
  from 0 1 2 show ?thesis by blast
qed

end
